theory Spec2Isabelle
  imports Complex_Main "HOL-Library.Monad_Syntax"
begin

section \<open>Numbers of the script\<close>

text \<open>
  The script \<^verbatim>\<open>3.Discounted_Cash_Flow.py\<close> computes with Python and numpy floats. The
  model keeps the one special value the script itself tests for, \<^verbatim>\<open>np.isnan\<close>, and takes
  every other value as an exact real: rounding and overflow are not modelled. Arithmetic
  propagates \<open>NaN\<close>, every ordering comparison with \<open>NaN\<close> is false, and \<open>NaN\<close> differs
  from every number, as in Python.
\<close>

datatype number = NaN | Fin real

instantiation number :: "{zero, one, plus, minus, uminus, times, inverse, ord}"
begin

definition zero_number :: number where
  "zero_number = Fin 0"

definition one_number :: number where
  "one_number = Fin 1"

definition plus_number :: "number \<Rightarrow> number \<Rightarrow> number" where
  "plus_number a b = (case (a, b) of (Fin x, Fin y) \<Rightarrow> Fin (x + y) | _ \<Rightarrow> NaN)"

definition minus_number :: "number \<Rightarrow> number \<Rightarrow> number" where
  "minus_number a b = (case (a, b) of (Fin x, Fin y) \<Rightarrow> Fin (x - y) | _ \<Rightarrow> NaN)"

definition uminus_number :: "number \<Rightarrow> number" where
  "uminus_number a = (case a of Fin x \<Rightarrow> Fin (- x) | NaN \<Rightarrow> NaN)"

definition times_number :: "number \<Rightarrow> number \<Rightarrow> number" where
  "times_number a b = (case (a, b) of (Fin x, Fin y) \<Rightarrow> Fin (x * y) | _ \<Rightarrow> NaN)"

definition divide_number :: "number \<Rightarrow> number \<Rightarrow> number" where
  "divide_number a b = (case (a, b) of (Fin x, Fin y) \<Rightarrow> Fin (x / y) | _ \<Rightarrow> NaN)"

definition inverse_number :: "number \<Rightarrow> number" where
  "inverse_number a = (case a of Fin x \<Rightarrow> Fin (inverse x) | NaN \<Rightarrow> NaN)"

definition less_eq_number :: "number \<Rightarrow> number \<Rightarrow> bool" where
  "less_eq_number a b = (case (a, b) of (Fin x, Fin y) \<Rightarrow> x \<le> y | _ \<Rightarrow> False)"

definition less_number :: "number \<Rightarrow> number \<Rightarrow> bool" where
  "less_number a b = (case (a, b) of (Fin x, Fin y) \<Rightarrow> x < y | _ \<Rightarrow> False)"

instance ..

end

instance number :: power ..

text \<open>\<^verbatim>\<open>np.isnan(x)\<close>.\<close>

definition isnan :: "number \<Rightarrow> bool" where
  "isnan x = (x = NaN)"

text \<open>
  The truth value of a number in a condition (\<^verbatim>\<open>if income_before_tax\<close>): false for zero
  only, so \<open>NaN\<close> is true.
\<close>

definition truthy :: "number \<Rightarrow> bool" where
  "truthy x = (x \<noteq> 0)"

text \<open>
  \<^verbatim>\<open>a / b\<close>. Python's float division raises \<^verbatim>\<open>ZeroDivisionError\<close> when the divisor is zero,
  whatever the dividend; \<open>None\<close> stands for that exception, the only one arithmetic on
  numbers can raise. (A numpy float divided by zero gives inf or nan with a warning
  instead; the model takes the stricter reading for every division.)
\<close>

definition pdiv :: "number \<Rightarrow> number \<Rightarrow> number option" where
  "pdiv a b = (if b = 0 then None else Some (a / b))"

text \<open>
  The built-ins \<^verbatim>\<open>max(a, b)\<close> and \<^verbatim>\<open>min(a, b)\<close> keep the first argument unless the second
  is strictly greater (smaller).
\<close>

definition py_max :: "number \<Rightarrow> number \<Rightarrow> number" where
  "py_max a b = (if b > a then b else a)"

definition py_min :: "number \<Rightarrow> number \<Rightarrow> number" where
  "py_min a b = (if b < a then b else a)"

text \<open>\<^verbatim>\<open>sum(xs)\<close>: addition from the left, starting at 0.\<close>

definition py_sum :: "number list \<Rightarrow> number" where
  "py_sum xs = foldl (+) 0 xs"

text \<open>\<^verbatim>\<open>range(i, j)\<close> on natural numbers.\<close>

definition py_range :: "nat \<Rightarrow> nat \<Rightarrow> nat list" where
  "py_range i j = [i..<j]"

section \<open>Input of one ticker\<close>

text \<open>
  What the valuation reads of the data of a ticker, once every value it uses is a text
  or a number (the section on what yfinance delivers covers the other values). A
  statement (\<^verbatim>\<open>financials\<close>, \<^verbatim>\<open>balance_sheet\<close>, \<^verbatim>\<open>cashflow\<close>) is a map from the row labels of
  its index to the value \<^verbatim>\<open>.loc[label].iloc[0]\<close> of the first column; \<^verbatim>\<open>info\<close> is split into
  its textual and its numeric entries.
\<close>

type_synonym statement = "string \<rightharpoonup> number"

record ticker_data =
  info_text :: "string \<rightharpoonup> string"
  info :: "string \<rightharpoonup> number"
  financials :: statement
  balance_sheet :: statement
  cashflow :: statement

text \<open>\<^verbatim>\<open>df.loc[label].iloc[0] if label in df.index else 0\<close>\<close>

definition line_item :: "statement \<Rightarrow> string \<Rightarrow> number" where
  "line_item df label = (case df label of Some v \<Rightarrow> v | None \<Rightarrow> 0)"

text \<open>\<^verbatim>\<open>d.get(key, default)\<close>\<close>

definition get :: "(string \<rightharpoonup> 'a) \<Rightarrow> string \<Rightarrow> 'a \<Rightarrow> 'a" where
  "get d key dflt = (case d key of Some v \<Rightarrow> v | None \<Rightarrow> dflt)"

text \<open>
  The five locals assigned under \<^verbatim>\<open># Assumptions\<close>. The model takes them as a parameter;
  \<open>source_assumptions\<close> holds the values the script assigns.
\<close>

record assumptions =
  risk_free_rate :: number
  market_return :: number
  growth_rate :: number
  perpetual_growth_rate :: number
  forecast_years :: nat

definition source_assumptions :: assumptions where
  "source_assumptions =
     \<lparr>risk_free_rate = Fin 0.0917, market_return = Fin 0.08,
      growth_rate = Fin 0.05, perpetual_growth_rate = Fin 0.03,
      forecast_years = 5\<rparr>"

section \<open>The valuation of one ticker\<close>

text \<open>
  The local variables of \<^verbatim>\<open>calculate_dcf\<close> once the valuation is computed (source lines
  46 to 117), under the names the source gives them.
\<close>

record locals =
  name :: string
  sector :: string
  industry :: string
  country :: string
  website :: string
  desc_snippet :: string
  ebit :: number
  taxes :: number
  income_before_tax :: number
  depreciation :: number
  capex :: number
  working_capital_change :: number
  interest_expense :: number
  total_debt :: number
  cash_equivalents :: number
  shares_outstanding :: number
  market_cap :: number
  current_assets :: number
  current_liabilities :: number
  net_ppe :: number
  beta :: number
  current_price :: number
  fcff :: number
  effective_tax_rate :: number
  cost_of_debt :: number
  cost_of_equity :: number
  total_weight :: number
  weight_debt :: number
  weight_equity :: number
  wacc :: number
  invested_capital :: number
  roic :: number
  excess_returns :: number
  future_fcff :: "number list"
  last_fcff :: number
  terminal_value :: number
  pv_fcff :: "number list"
  pv_terminal :: number
  total_pv :: number
  market_equity_value :: number
  fair_value_per_share :: number
  upside :: number
  margin_of_safety_pct :: number
  valuation :: string

text \<open>
  Source lines 46 to 117, statement by statement, in the option monad: a division is
  \<open>pdiv\<close>, and \<open>None\<close> is the \<^verbatim>\<open>ZeroDivisionError\<close> that would leave the \<^verbatim>\<open>try\<close> block.
  Where the source assigns a variable twice (\<^verbatim>\<open>fcff\<close>, \<^verbatim>\<open>wacc\<close>), the first value carries
  a 0 in its name, and \<open>rate0\<close> is the tax rate written inline in line 79.
  \<^verbatim>\<open>enumerate(xs, 1)\<close> is \<open>List.enumerate 1 xs\<close>, and a list comprehension that divides is
  \<open>those (map \<dots>)\<close>, which is \<open>None\<close> as soon as one division raises. A comparison
  \<^verbatim>\<open>x != 0\<close> is \<open>x \<noteq> 0\<close>: NaN differs from 0 in Python as in the model.
\<close>

definition calculate_dcf_body :: "assumptions \<Rightarrow> string \<Rightarrow> ticker_data \<Rightarrow> locals option" where
  "calculate_dcf_body a ticker d = do {
     let name = get (info_text d) ''shortName'' ticker;
     let sector = get (info_text d) ''sector'' ''N/A'';
     let industry = get (info_text d) ''industry'' ''N/A'';
     let country = get (info_text d) ''country'' ''N/A'';
     let website = get (info_text d) ''website'' ''N/A'';
     let desc_snippet = take 250 (get (info_text d) ''longBusinessSummary'' ''N/A'');
     let ebit = line_item (financials d) ''EBIT'';
     let taxes = line_item (financials d) ''Income Tax Expense'';
     let income_before_tax = line_item (financials d) ''Pretax Income'';
     let depreciation = line_item (cashflow d) ''Depreciation'';
     let capex = (case cashflow d ''Capital Expenditure'' of Some v \<Rightarrow> - v | None \<Rightarrow> 0);
     let working_capital_change = line_item (cashflow d) ''Change in Working Capital'';
     let interest_expense = line_item (financials d) ''Interest Expense'';
     let total_debt = line_item (balance_sheet d) ''Total Debt'';
     let cash_equivalents = line_item (balance_sheet d) ''Cash And Cash Equivalents'';
     let shares_outstanding = get (info d) ''sharesOutstanding'' 0;
     let market_cap = get (info d) ''marketCap'' 0;
     let current_assets = line_item (balance_sheet d) ''Total Current Assets'';
     let current_liabilities = line_item (balance_sheet d) ''Total Current Liabilities'';
     let net_ppe = line_item (balance_sheet d) ''Net PPE'';
     let beta = get (info d) ''beta'' 1;
     let current_price = get (info d) ''currentPrice'' 0;
     rate0 \<leftarrow> (if truthy income_before_tax then pdiv taxes income_before_tax
               else Some (Fin 0.25));
     let fcff0 = ebit * (1 - rate0) + depreciation - capex - working_capital_change;
     fcff \<leftarrow> (if isnan fcff0 \<or> fcff0 \<le> 0 then do {
                 let net_income = line_item (financials d) ''Net Income'';
                 effective_tax_rate \<leftarrow> (if income_before_tax \<noteq> 0 then pdiv taxes income_before_tax
                                        else Some (Fin 0.25));
                 let nopat = net_income + interest_expense * (1 - effective_tax_rate);
                 Some (nopat + depreciation - capex - working_capital_change)
               } else Some fcff0);
     effective_tax_rate \<leftarrow> (if income_before_tax \<noteq> 0 then pdiv taxes income_before_tax
                            else Some (Fin 0.25));
     cost_of_debt \<leftarrow> (if total_debt \<noteq> 0 then do {
                         q \<leftarrow> pdiv interest_expense total_debt;
                         Some (q * (1 - effective_tax_rate))
                       } else Some 0);
     let cost_of_equity = risk_free_rate a + beta * (market_return a - risk_free_rate a);
     let total_weight = total_debt + market_cap;
     weight_debt \<leftarrow> (if total_weight \<noteq> 0 then pdiv total_debt total_weight else Some 0);
     weight_equity \<leftarrow> (if total_weight \<noteq> 0 then pdiv market_cap total_weight else Some 1);
     let wacc0 = (weight_equity * cost_of_equity) + (weight_debt * cost_of_debt);
     let wacc = py_min (py_max wacc0 (Fin 0.05)) (Fin 0.25);
     let invested_capital = current_assets - current_liabilities + net_ppe;
     roic \<leftarrow> (if invested_capital \<noteq> 0 then pdiv (ebit * (1 - effective_tax_rate)) invested_capital
               else Some 0);
     let excess_returns = (if roic \<noteq> 0 \<and> wacc \<noteq> 0 then roic - wacc else 0);
     let future_fcff = map (\<lambda>t. fcff * (1 + growth_rate a) ^ t) (py_range 1 (forecast_years a + 1));
     let last_fcff = (if future_fcff \<noteq> [] then last future_fcff else fcff);
     terminal_value \<leftarrow> (if wacc > perpetual_growth_rate a
                         then pdiv (last_fcff * (1 + perpetual_growth_rate a))
                                (wacc - perpetual_growth_rate a)
                         else Some 0);
     pv_fcff \<leftarrow> those (map (\<lambda>(t, fcf). pdiv fcf ((1 + wacc) ^ t)) (List.enumerate 1 future_fcff));
     pv_terminal \<leftarrow> (if terminal_value \<noteq> 0 then pdiv terminal_value ((1 + wacc) ^ forecast_years a)
                      else Some 0);
     let total_pv = py_sum pv_fcff + pv_terminal;
     let market_equity_value = total_pv + cash_equivalents - total_debt;
     fair_value_per_share \<leftarrow> (if shares_outstanding \<noteq> 0
                               then pdiv market_equity_value shares_outstanding else Some 0);
     upside \<leftarrow> (if truthy current_price then do {
                   q \<leftarrow> pdiv (fair_value_per_share - current_price) current_price;
                   Some (q * Fin 100)
                 } else Some 0);
     margin_of_safety_pct \<leftarrow> (if fair_value_per_share \<noteq> 0 then do {
                   q \<leftarrow> pdiv (fair_value_per_share - current_price) fair_value_per_share;
                   Some (q * Fin 100)
                 } else Some 0);
     let valuation = (if upside > 0 then ''Undervalued'' else ''Overvalued'');
     Some \<lparr>name = name, sector = sector, industry = industry, country = country,
       website = website, desc_snippet = desc_snippet, ebit = ebit, taxes = taxes,
       income_before_tax = income_before_tax, depreciation = depreciation, capex = capex,
       working_capital_change = working_capital_change, interest_expense = interest_expense,
       total_debt = total_debt, cash_equivalents = cash_equivalents,
       shares_outstanding = shares_outstanding, market_cap = market_cap,
       current_assets = current_assets, current_liabilities = current_liabilities,
       net_ppe = net_ppe, beta = beta, current_price = current_price, fcff = fcff,
       effective_tax_rate = effective_tax_rate, cost_of_debt = cost_of_debt,
       cost_of_equity = cost_of_equity, total_weight = total_weight,
       weight_debt = weight_debt, weight_equity = weight_equity, wacc = wacc,
       invested_capital = invested_capital, roic = roic, excess_returns = excess_returns,
       future_fcff = future_fcff, last_fcff = last_fcff, terminal_value = terminal_value,
       pv_fcff = pv_fcff, pv_terminal = pv_terminal, total_pv = total_pv,
       market_equity_value = market_equity_value,
       fair_value_per_share = fair_value_per_share, upside = upside,
       margin_of_safety_pct = margin_of_safety_pct, valuation = valuation\<rparr>
   }"

section \<open>One ticker: fetch, valuation, report and row\<close>

text \<open>
  What the \<^verbatim>\<open>try\<close> block has to compute with is a parameter of the model: for a ticker,
  \<open>Inl e\<close> when an exception with message \<open>e\<close> is raised by a call to yfinance (source
  lines 39 to 43), by a value the script cannot use or by opening the report (see
  \<open>provider_of\<close> below), and \<open>Inr d\<close>, the data as texts and numbers, otherwise. An exception
  in general is \<open>Inl\<close> of its message.
\<close>

type_synonym provider = "string \<Rightarrow> string + ticker_data"

text \<open>
  The state the workers share: the report files below \<^verbatim>\<open>dcf_reports\<close> and the module-level
  list \<^verbatim>\<open>financial_data_records\<close>. A report is kept as the values its text renders, and a
  row of the list as the ticker with the locals the dictionary copies; the number
  formatting of both is not modelled.
\<close>

type_synonym row = "string \<times> locals"

record world =
  dcf_reports :: "string \<rightharpoonup> locals"
  financial_data_records :: "row list"

definition dcf_output_folder :: string where
  "dcf_output_folder = ''dcf_reports''"

text \<open>
  \<^verbatim>\<open>calculate_dcf\<close>: the whole body is inside \<^verbatim>\<open>try\<close>, and \<^verbatim>\<open>except Exception as e\<close> returns
  the error string for whatever was raised, so the function itself never raises. It
  returns \<^verbatim>\<open>None\<close> after it has written the report and appended the row. Once the
  report is open, writing it (line 144) is taken to succeed.
\<close>

definition calculate_dcf :: "provider \<Rightarrow> string \<Rightarrow> world \<Rightarrow> string + (string option \<times> world)" where
  "calculate_dcf yf ticker w =
     (case yf ticker of
        Inl e \<Rightarrow> Inr (Some (''Error fetching data or calculating DCF for '' @ ticker @ '': '' @ e), w)
      | Inr d \<Rightarrow>
          (case calculate_dcf_body source_assumptions ticker d of
             None \<Rightarrow>
               Inr (Some (''Error fetching data or calculating DCF for '' @ ticker @ '': ''
                            @ ''float division by zero''), w)
           | Some l \<Rightarrow>
               (let file_path = dcf_output_folder @ ''/'' @ ticker @ ''_dcf.txt'';
                    w1 = w\<lparr>dcf_reports := (dcf_reports w)(file_path \<mapsto> l)\<rparr>;
                    w2 = w1\<lparr>financial_data_records := financial_data_records w1 @ [(ticker, l)]\<rparr>
                in Inr (None, w2))))"

text \<open>\<^verbatim>\<open>safe_calculate_dcf\<close>: the wrapper with its own \<^verbatim>\<open>try\<close>.\<close>

definition safe_calculate_dcf :: "provider \<Rightarrow> string \<Rightarrow> world \<Rightarrow> string option \<times> world" where
  "safe_calculate_dcf yf ticker w =
     (case calculate_dcf yf ticker w of
        Inr res \<Rightarrow> res
      | Inl e \<Rightarrow> (Some (''Error for '' @ ticker @ '': '' @ e), w))"

section \<open>What yfinance delivers\<close>

text \<open>
  The data yfinance delivers are not all numbers, and the script finds out only where it
  uses them. Besides texts and numbers the model covers the value \<^verbatim>\<open>None\<close> under the keys
  \<^verbatim>\<open>longBusinessSummary\<close> and \<^verbatim>\<open>beta\<close> of \<^verbatim>\<open>info\<close>, and statements whose rows have no
  column: a row is the list of its cells, \<^verbatim>\<open>df.loc[label]\<close>. An entry under a key of
  \<open>none_entries\<close> holds \<^verbatim>\<open>None\<close>, whatever the two maps say. (\<^verbatim>\<open>None\<close> under another key and
  entries of other types are outside the model.)
\<close>

datatype none_key = LongBusinessSummary | Beta

record raw_data =
  raw_info_text :: "string \<rightharpoonup> string"
  raw_info :: "string \<rightharpoonup> number"
  none_entries :: "none_key set"
  raw_financials :: "string \<rightharpoonup> number list"
  raw_balance_sheet :: "string \<rightharpoonup> number list"
  raw_cashflow :: "string \<rightharpoonup> number list"

text \<open>
  The world outside one call: \<open>fetch\<close> stands for the calls of source lines 39 to 43, which
  raise or deliver the data, and \<open>open_error\<close> gives, for a path, the message of the
  \<^verbatim>\<open>OSError\<close> that \<^verbatim>\<open>open(file_path, "w")\<close> raises in line 143, if it raises.
\<close>

record environment =
  fetch :: "string \<Rightarrow> string + raw_data"
  open_error :: "string \<Rightarrow> string option"

text \<open>
  The messages of the three exceptions: the \<^verbatim>\<open>TypeError\<close> of \<^verbatim>\<open>None[:250]\<close> (line 51), the
  \<^verbatim>\<open>IndexError\<close> of \<^verbatim>\<open>.iloc[0]\<close> on a row without a cell, and the \<^verbatim>\<open>TypeError\<close> of
  \<^verbatim>\<open>None * float\<close> (line 91).
\<close>

definition quoted :: "string \<Rightarrow> string" where
  "quoted s = [CHR 0x27] @ s @ [CHR 0x27]"

definition not_subscriptable :: string where
  "not_subscriptable = quoted ''NoneType'' @ '' object is not subscriptable''"

definition out_of_bounds :: string where
  "out_of_bounds = ''single positional indexer is out-of-bounds''"

definition unsupported_mul :: string where
  "unsupported_mul =
     ''unsupported operand type(s) for *: '' @ quoted ''NoneType'' @ '' and '' @ quoted ''float''"

text \<open>\<^verbatim>\<open>label in df.index\<close> holds and \<^verbatim>\<open>df.loc[label].iloc[0]\<close> raises.\<close>

definition no_column :: "(string \<rightharpoonup> number list) \<Rightarrow> string \<Rightarrow> bool" where
  "no_column df label = (df label = Some [])"

text \<open>The data as the valuation reads them: of every row its first cell.\<close>

definition first_cells :: "(string \<rightharpoonup> number list) \<Rightarrow> statement" where
  "first_cells df = (\<lambda>label. case df label of Some (v # _) \<Rightarrow> Some v | _ \<Rightarrow> None)"

definition numbers :: "raw_data \<Rightarrow> ticker_data" where
  "numbers raw =
     \<lparr>info_text = raw_info_text raw, info = raw_info raw,
      financials = first_cells (raw_financials raw),
      balance_sheet = first_cells (raw_balance_sheet raw),
      cashflow = first_cells (raw_cashflow raw)\<rparr>"

text \<open>
  The exception that source lines 46 to 69 raise while they pull the company info and the
  line items, if any: first line 51, then the rows of lines 54 to 62 and 65 to 67.
\<close>

definition normalize_error :: "raw_data \<Rightarrow> string option" where
  "normalize_error raw =
     (if LongBusinessSummary \<in> none_entries raw then Some not_subscriptable
      else if list_ex (no_column (raw_financials raw))
                [''EBIT'', ''Income Tax Expense'', ''Pretax Income'']
            \<or> list_ex (no_column (raw_cashflow raw))
                [''Depreciation'', ''Capital Expenditure'', ''Change in Working Capital'']
            \<or> no_column (raw_financials raw) ''Interest Expense''
            \<or> list_ex (no_column (raw_balance_sheet raw))
                [''Total Debt'', ''Cash And Cash Equivalents'', ''Total Current Assets'',
                 ''Total Current Liabilities'', ''Net PPE'']
      then Some out_of_bounds
      else None)"

text \<open>The test of source line 82, on the value of lines 79 and 80.\<close>

definition fallback_branch :: "ticker_data \<Rightarrow> bool" where
  "fallback_branch d =
     (let ebit = line_item (financials d) ''EBIT'';
          taxes = line_item (financials d) ''Income Tax Expense'';
          income_before_tax = line_item (financials d) ''Pretax Income'';
          depreciation = line_item (cashflow d) ''Depreciation'';
          capex = (case cashflow d ''Capital Expenditure'' of Some v \<Rightarrow> - v | None \<Rightarrow> 0);
          working_capital_change = line_item (cashflow d) ''Change in Working Capital'';
          fcff = ebit * (1 - (if truthy income_before_tax then taxes / income_before_tax
                              else Fin 0.25))
                   + depreciation - capex - working_capital_change
      in isnan fcff \<or> fcff \<le> 0)"

text \<open>
  The exception that source lines 79 to 117 raise on values that are not numbers, if
  any: in line 83, reached in the fallback branch only, the row \<^verbatim>\<open>Net Income\<close> without a
  column, and in line 91 a beta that is \<^verbatim>\<open>None\<close>. On numbers these lines are
  \<open>calculate_dcf_body\<close>.
\<close>

definition evaluate_error :: "raw_data \<Rightarrow> string option" where
  "evaluate_error raw =
     (if fallback_branch (numbers raw) \<and> no_column (raw_financials raw) ''Net Income''
      then Some out_of_bounds
      else if Beta \<in> none_entries raw then Some unsupported_mul
      else None)"

text \<open>
  The \<^verbatim>\<open>try\<close> block up to its first effect. The stages are the fetch (lines 39 to 43),
  pulling the company info and the line items (lines 46 to 69), the valuation (lines 72 to
  117) and opening the report (line 143). Nothing is written before line 143, and
  formatting the report from texts and numbers (lines 121 to 140) does not raise, so
  that the first exception of the block is the first one found here, in the order of the
  source; with no exception the block goes on with the data as numbers.
\<close>

datatype stage = Fetch | Normalize | Evaluate | Report

definition attempt :: "environment \<Rightarrow> string \<Rightarrow> (stage \<times> string) + ticker_data" where
  "attempt env ticker =
     (case fetch env ticker of
        Inl e \<Rightarrow> Inl (Fetch, e)
      | Inr raw \<Rightarrow>
          (case normalize_error raw of
             Some e \<Rightarrow> Inl (Normalize, e)
           | None \<Rightarrow>
               (case evaluate_error raw of
                  Some e \<Rightarrow> Inl (Evaluate, e)
                | None \<Rightarrow>
                    (case open_error env (dcf_output_folder @ ''/'' @ ticker @ ''_dcf.txt'') of
                       Some e \<Rightarrow> Inl (Report, e)
                     | None \<Rightarrow> Inr (numbers raw)))))"

text \<open>
  The handler of line 186 puts the message of the exception into the error string,
  whatever the stage. The function \<^verbatim>\<open>calculate_dcf\<close> of the source, run in the environment
  \<open>env\<close>, is \<open>calculate_dcf (provider_of env)\<close>.
\<close>

definition provider_of :: "environment \<Rightarrow> provider" where
  "provider_of env ticker = (case attempt env ticker of Inl (s, e) \<Rightarrow> Inl e | Inr d \<Rightarrow> Inr d)"

section \<open>The batch\<close>

text \<open>
  \<^verbatim>\<open>list(executor.map(f, tickers))\<close> on a thread pool. A call touches the shared state in
  one place, where a successful call writes its own report file and appends its row, so a
  run of the pool is determined by the order in which the calls get there: the schedule,
  a list of positions of \<open>tickers\<close>. \<open>run_tasks\<close> performs the calls in that order and
  stores each returned value in the slot of its position; \<open>executor_map\<close> hands the slots
  over in input order, and has no list to hand over (\<open>None\<close>) when a slot was never filled.
  The bound \<^verbatim>\<open>max_workers\<close> only restricts which schedules can occur.
\<close>

fun run_tasks ::
  "(string \<Rightarrow> world \<Rightarrow> string option \<times> world) \<Rightarrow> string list \<Rightarrow> nat list
     \<Rightarrow> (nat \<rightharpoonup> string option) \<times> world \<Rightarrow> (nat \<rightharpoonup> string option) \<times> world" where
  "run_tasks f ts [] sw = sw"
| "run_tasks f ts (i # sched) (slots, w) =
     (if i < length ts
      then (case f (ts ! i) w of (res, w') \<Rightarrow> run_tasks f ts sched (slots(i \<mapsto> res), w'))
      else run_tasks f ts sched (slots, w))"

definition executor_map ::
  "(string \<Rightarrow> world \<Rightarrow> string option \<times> world) \<Rightarrow> string list \<Rightarrow> nat list \<Rightarrow> world
     \<Rightarrow> string option list option \<times> world" where
  "executor_map f ts sched w =
     (case run_tasks f ts sched (Map.empty, w) of
        (slots, w') \<Rightarrow> (those (map slots [0..<length ts]), w'))"

text \<open>
  The script from line 215 on, for a list of tickers: \<^verbatim>\<open>results\<close>, and the state from which the
  CSV file is then written. Both lists are empty when the script starts.
\<close>

definition initial_world :: world where
  "initial_world = \<lparr>dcf_reports = Map.empty, financial_data_records = []\<rparr>"

definition run_script :: "provider \<Rightarrow> string list \<Rightarrow> nat list \<Rightarrow> string option list option \<times> world" where
  "run_script yf tickers sched = executor_map (safe_calculate_dcf yf) tickers sched initial_world"

section \<open>Inputs used as examples\<close>

text \<open>
  The snapshot of the specification's example: EBIT 1000, taxes 250, pretax income 1000,
  depreciation 100, capital expenditure 150 (reported as an outflow), change in working
  capital 50, no debt, market capitalisation 10000, beta 1; 100 shares and no current price.
\<close>

definition example_data :: ticker_data where
  "example_data =
     \<lparr>info_text = Map.empty,
      info = [''marketCap'' \<mapsto> Fin 10000, ''beta'' \<mapsto> Fin 1, ''sharesOutstanding'' \<mapsto> Fin 100],
      financials = [''EBIT'' \<mapsto> Fin 1000, ''Income Tax Expense'' \<mapsto> Fin 250,
                    ''Pretax Income'' \<mapsto> Fin 1000],
      balance_sheet = [''Total Debt'' \<mapsto> Fin 0],
      cashflow = [''Depreciation'' \<mapsto> Fin 100, ''Capital Expenditure'' \<mapsto> Fin (- 150),
                  ''Change in Working Capital'' \<mapsto> Fin 50]\<rparr>"

text \<open>A ticker for which yfinance has no entry at all.\<close>

definition no_data :: ticker_data where
  "no_data = \<lparr>info_text = Map.empty, info = Map.empty, financials = Map.empty,
              balance_sheet = Map.empty, cashflow = Map.empty\<rparr>"

text \<open>A balance sheet whose latest \<^verbatim>\<open>Total Debt\<close> cell is empty, which pandas reads as NaN.\<close>

definition nan_debt_data :: ticker_data where
  "nan_debt_data = no_data\<lparr>balance_sheet := [''Total Debt'' \<mapsto> NaN]\<rparr>"

text \<open>yfinance knows \<^verbatim>\<open>ABG.JO\<close> and \<^verbatim>\<open>ADH.JO\<close> and fails for every other ticker.\<close>

definition example_provider :: provider where
  "example_provider ticker =
     (if ticker = ''ABG.JO'' then Inr example_data
      else if ticker = ''ADH.JO'' then Inr no_data
      else Inl ''No data found, symbol may be delisted'')"

text \<open>
  A loss: EBIT of -100, a net income of 80 and an interest expense of 40; and an income
  statement whose latest EBIT cell is empty (NaN), with a net income of 80.
\<close>

definition loss_data :: ticker_data where
  "loss_data = no_data\<lparr>financials :=
     [''EBIT'' \<mapsto> Fin (- 100), ''Net Income'' \<mapsto> Fin 80, ''Interest Expense'' \<mapsto> Fin 40]\<rparr>"

definition nan_ebit_data :: ticker_data where
  "nan_ebit_data = no_data\<lparr>financials := [''EBIT'' \<mapsto> NaN, ''Net Income'' \<mapsto> Fin 80]\<rparr>"

text \<open>Data that hold texts and numbers only, every row with one cell.\<close>

definition raw_numbers :: "ticker_data \<Rightarrow> raw_data" where
  "raw_numbers d =
     \<lparr>raw_info_text = info_text d, raw_info = info d, none_entries = {},
      raw_financials = (\<lambda>label. map_option (\<lambda>v. [v]) (financials d label)),
      raw_balance_sheet = (\<lambda>label. map_option (\<lambda>v. [v]) (balance_sheet d label)),
      raw_cashflow = (\<lambda>label. map_option (\<lambda>v. [v]) (cashflow d label))\<rparr>"

text \<open>
  An environment in which every report can be written and yfinance delivers the example
  snapshot for \<^verbatim>\<open>ABG.JO\<close>, an income statement without a column for \<^verbatim>\<open>ADH.JO\<close>, the example
  snapshot with a beta of \<^verbatim>\<open>None\<close> for \<^verbatim>\<open>AEL.JO\<close>, a loss whose row \<^verbatim>\<open>Net Income\<close> has no cell
  for \<^verbatim>\<open>AFE.JO\<close> and the example snapshot with a business summary of \<^verbatim>\<open>None\<close> for \<^verbatim>\<open>AFH.JO\<close>,
  and fails for every other ticker.
\<close>

definition example_environment :: environment where
  "example_environment =
     \<lparr>fetch = (\<lambda>ticker.
        if ticker = ''ABG.JO'' then Inr (raw_numbers example_data)
        else if ticker = ''ADH.JO''
          then Inr ((raw_numbers no_data)\<lparr>raw_financials := [''EBIT'' \<mapsto> []]\<rparr>)
        else if ticker = ''AEL.JO''
          then Inr ((raw_numbers example_data)\<lparr>none_entries := {Beta}\<rparr>)
        else if ticker = ''AFE.JO''
          then Inr ((raw_numbers no_data)\<lparr>raw_financials :=
                      [''EBIT'' \<mapsto> [Fin (- 100)], ''Net Income'' \<mapsto> []]\<rparr>)
        else if ticker = ''AFH.JO''
          then Inr ((raw_numbers example_data)\<lparr>none_entries := {LongBusinessSummary}\<rparr>)
        else Inl ''No data found, symbol may be delisted''),
      open_error = (\<lambda>path. None)\<rparr>"

section \<open>Arithmetic of numbers\<close>

lemma number_arith [simp]:
  "Fin x + Fin y = Fin (x + y)" "NaN + b = NaN" "a + NaN = NaN"
  "Fin x - Fin y = Fin (x - y)" "NaN - b = NaN" "a - NaN = NaN"
  "Fin x * Fin y = Fin (x * y)" "NaN * b = NaN" "a * NaN = NaN"
  "Fin x / Fin y = Fin (x / y)" "NaN / b = NaN" "a / NaN = NaN"
  "- Fin x = Fin (- x)" "- NaN = NaN"
  by (simp_all add: plus_number_def minus_number_def times_number_def divide_number_def
      uminus_number_def split: number.splits)

lemma number_cmp [simp]:
  "(Fin x \<le> Fin y) = (x \<le> y)" "(NaN \<le> b) = False" "(a \<le> NaN) = False"
  "(Fin x < Fin y) = (x < y)" "(NaN < b) = False" "(a < NaN) = False"
  by (simp_all add: less_eq_number_def less_number_def split: number.splits)

lemma number_power [simp]: "Fin x ^ n = Fin (x ^ n)" "NaN ^ Suc n = NaN"
  by (induction n) (simp_all add: one_number_def)

lemma gt_diff_nz: "b < a \<Longrightarrow> a - b \<noteq> (0::number)"
  by (cases a; cases b) (simp_all add: zero_number_def)

lemma clamp_NaN: "py_min (py_max NaN lo) hi = NaN"
  by (simp add: py_min_def py_max_def)

lemma clamp_Fin: "py_min (py_max (Fin x) (Fin lo)) (Fin hi) = Fin (min (max x lo) hi)"
  by (simp add: py_min_def py_max_def min_def max_def)

lemma clamp_power_nz:
  assumes "0 \<le> lo" "0 \<le> hi"
  shows "(1 + py_min (py_max w (Fin lo)) (Fin hi)) ^ t \<noteq> 0"
proof (cases w)
  case NaN
  then show ?thesis by (cases t) (simp_all add: clamp_NaN one_number_def zero_number_def)
next
  case (Fin x)
  from assms have "1 + min (max x lo) hi \<noteq> 0" by (simp add: min_def max_def)
  with Fin show ?thesis by (simp add: clamp_Fin one_number_def zero_number_def)
qed

section \<open>Divisions under their guards\<close>

lemma those_pdiv:
  assumes "\<And>t. c ^ t \<noteq> 0"
  shows "those (map (\<lambda>(t, fcf). pdiv fcf (c ^ t)) xs) = Some (map (\<lambda>(t, fcf). fcf / c ^ t) xs)"
  using assms by (induction xs) (auto simp: pdiv_def)

lemma if_Some: "(if c then Some x else Some y) = Some (if c then x else y)"
  by simp

lemma guard_div: "(if b \<noteq> 0 then pdiv a b else Some c) = Some (if b \<noteq> 0 then a / b else c)"
  by (simp add: pdiv_def)

lemma guard_div_bind:
  "(if b \<noteq> 0 then pdiv a b \<bind> (\<lambda>q. Some (f q)) else Some c)
     = Some (if b \<noteq> 0 then f (a / b) else c)"
  by (simp add: pdiv_def)

lemma guard_gt_div:
  "(if p < w then pdiv x (w - p) else Some c) = Some (if p < w then x / (w - p) else c)"
  by (simp add: pdiv_def gt_diff_nz)

lemma those_pdiv_clamp:
  "0 \<le> lo \<Longrightarrow> 0 \<le> hi \<Longrightarrow>
   those (map (\<lambda>(t, fcf). pdiv fcf ((1 + py_min (py_max w (Fin lo)) (Fin hi)) ^ t)) xs)
     = Some (map (\<lambda>(t, fcf). fcf / (1 + py_min (py_max w (Fin lo)) (Fin hi)) ^ t) xs)"
  by (rule those_pdiv) (rule clamp_power_nz)

lemma guard_div_clamp:
  "0 \<le> lo \<Longrightarrow> 0 \<le> hi \<Longrightarrow>
   (if b \<noteq> 0 then pdiv x ((1 + py_min (py_max w (Fin lo)) (Fin hi)) ^ n) else Some c)
     = Some (if b \<noteq> 0 then x / (1 + py_min (py_max w (Fin lo)) (Fin hi)) ^ n else c)"
  by (simp add: pdiv_def clamp_power_nz)

section \<open>The valuation returns, and what its locals hold\<close>

text \<open>No division of the valuation raises: for every input it returns its locals.\<close>

lemma body_Some: "\<exists>r. calculate_dcf_body a ticker d = Some r"
  unfolding calculate_dcf_body_def
  by (simp add: Let_def truthy_def those_pdiv_clamp guard_div_clamp if_Some guard_div
      guard_div_bind guard_gt_div)

text \<open>
  The definition is read statement by statement: each \<open>let\<close> and each bind that returns
  introduces the value of one local, and the later statements speak about that value.
\<close>

lemma Let_eq_Some: "(Let e f = Some r) = (\<exists>x. e = x \<and> f x = Some r)"
  by simp

lemma Some_eq_Some: "(Some x = Some r) = (r = x)"
  by auto

lemma body_inputs:
  assumes "calculate_dcf_body a ticker d = Some r"
  shows "ebit r = line_item (financials d) ''EBIT''
     \<and> taxes r = line_item (financials d) ''Income Tax Expense''
     \<and> income_before_tax r = line_item (financials d) ''Pretax Income''
     \<and> depreciation r = line_item (cashflow d) ''Depreciation''
     \<and> capex r = (case cashflow d ''Capital Expenditure'' of Some v \<Rightarrow> - v | None \<Rightarrow> 0)
     \<and> working_capital_change r = line_item (cashflow d) ''Change in Working Capital''
     \<and> interest_expense r = line_item (financials d) ''Interest Expense''
     \<and> total_debt r = line_item (balance_sheet d) ''Total Debt''
     \<and> cash_equivalents r = line_item (balance_sheet d) ''Cash And Cash Equivalents''
     \<and> shares_outstanding r = get (info d) ''sharesOutstanding'' 0
     \<and> market_cap r = get (info d) ''marketCap'' 0
     \<and> current_assets r = line_item (balance_sheet d) ''Total Current Assets''
     \<and> current_liabilities r = line_item (balance_sheet d) ''Total Current Liabilities''
     \<and> net_ppe r = line_item (balance_sheet d) ''Net PPE''
     \<and> beta r = get (info d) ''beta'' 1
     \<and> current_price r = get (info d) ''currentPrice'' 0"
  using assms unfolding calculate_dcf_body_def
  apply (simp only: Let_eq_Some bind_eq_Some_conv Some_eq_Some)
  apply (elim exE conjE)
  apply (simp add: Let_def truthy_def if_Some guard_div guard_div_bind guard_gt_div
      cong: if_cong split del: if_split)
  done

lemma body_effective_tax_rate:
  assumes "calculate_dcf_body a ticker d = Some r"
  shows "effective_tax_rate r =
     (if income_before_tax r \<noteq> 0 then taxes r / income_before_tax r else Fin 0.25)"
  using assms unfolding calculate_dcf_body_def
  apply (simp only: Let_eq_Some bind_eq_Some_conv Some_eq_Some)
  apply (elim exE conjE)
  apply (simp add: Let_def truthy_def if_Some guard_div guard_div_bind guard_gt_div
      cong: if_cong split del: if_split)
  done

lemma body_fcff:
  assumes "calculate_dcf_body a ticker d = Some r"
  shows "fcff r =
     (if isnan (ebit r * (1 - effective_tax_rate r) + depreciation r - capex r
                 - working_capital_change r)
         \<or> ebit r * (1 - effective_tax_rate r) + depreciation r - capex r
                 - working_capital_change r \<le> 0
      then line_item (financials d) ''Net Income''
             + interest_expense r * (1 - effective_tax_rate r)
             + depreciation r - capex r - working_capital_change r
      else ebit r * (1 - effective_tax_rate r) + depreciation r - capex r
             - working_capital_change r)"
  using assms unfolding calculate_dcf_body_def
  apply (simp only: Let_eq_Some bind_eq_Some_conv Some_eq_Some)
  apply (elim exE conjE)
  apply (simp add: Let_def truthy_def if_Some guard_div guard_div_bind guard_gt_div
      cong: if_cong split del: if_split)
  done

lemma body_cost_of_debt:
  assumes "calculate_dcf_body a ticker d = Some r"
  shows "cost_of_debt r =
     (if total_debt r \<noteq> 0
      then interest_expense r / total_debt r * (1 - effective_tax_rate r) else 0)"
  using assms unfolding calculate_dcf_body_def
  apply (simp only: Let_eq_Some bind_eq_Some_conv Some_eq_Some)
  apply (elim exE conjE)
  apply (simp add: Let_def truthy_def if_Some guard_div guard_div_bind guard_gt_div
      cong: if_cong split del: if_split)
  done

lemma body_cost_of_equity:
  assumes "calculate_dcf_body a ticker d = Some r"
  shows "cost_of_equity r = risk_free_rate a + beta r * (market_return a - risk_free_rate a)"
  using assms unfolding calculate_dcf_body_def
  apply (simp only: Let_eq_Some bind_eq_Some_conv Some_eq_Some)
  apply (elim exE conjE)
  apply (simp add: Let_def truthy_def if_Some guard_div guard_div_bind guard_gt_div
      cong: if_cong split del: if_split)
  done

lemma body_total_weight:
  assumes "calculate_dcf_body a ticker d = Some r"
  shows "total_weight r = total_debt r + market_cap r"
  using assms unfolding calculate_dcf_body_def
  apply (simp only: Let_eq_Some bind_eq_Some_conv Some_eq_Some)
  apply (elim exE conjE)
  apply (simp add: Let_def truthy_def if_Some guard_div guard_div_bind guard_gt_div
      cong: if_cong split del: if_split)
  done

lemma body_weight_debt:
  assumes "calculate_dcf_body a ticker d = Some r"
  shows "weight_debt r = (if total_weight r \<noteq> 0 then total_debt r / total_weight r else 0)"
  using assms unfolding calculate_dcf_body_def
  apply (simp only: Let_eq_Some bind_eq_Some_conv Some_eq_Some)
  apply (elim exE conjE)
  apply (simp add: Let_def truthy_def if_Some guard_div guard_div_bind guard_gt_div
      cong: if_cong split del: if_split)
  done

lemma body_weight_equity:
  assumes "calculate_dcf_body a ticker d = Some r"
  shows "weight_equity r = (if total_weight r \<noteq> 0 then market_cap r / total_weight r else 1)"
  using assms unfolding calculate_dcf_body_def
  apply (simp only: Let_eq_Some bind_eq_Some_conv Some_eq_Some)
  apply (elim exE conjE)
  apply (simp add: Let_def truthy_def if_Some guard_div guard_div_bind guard_gt_div
      cong: if_cong split del: if_split)
  done

lemma body_wacc:
  assumes "calculate_dcf_body a ticker d = Some r"
  shows "wacc r =
     py_min (py_max (weight_equity r * cost_of_equity r + weight_debt r * cost_of_debt r)
               (Fin 0.05)) (Fin 0.25)"
  using assms unfolding calculate_dcf_body_def
  apply (simp only: Let_eq_Some bind_eq_Some_conv Some_eq_Some)
  apply (elim exE conjE)
  apply (simp add: Let_def truthy_def if_Some guard_div guard_div_bind guard_gt_div
      cong: if_cong split del: if_split)
  done

lemma body_invested_capital:
  assumes "calculate_dcf_body a ticker d = Some r"
  shows "invested_capital r = current_assets r - current_liabilities r + net_ppe r"
  using assms unfolding calculate_dcf_body_def
  apply (simp only: Let_eq_Some bind_eq_Some_conv Some_eq_Some)
  apply (elim exE conjE)
  apply (simp add: Let_def truthy_def if_Some guard_div guard_div_bind guard_gt_div
      cong: if_cong split del: if_split)
  done

lemma body_roic:
  assumes "calculate_dcf_body a ticker d = Some r"
  shows "roic r =
     (if invested_capital r \<noteq> 0
      then ebit r * (1 - effective_tax_rate r) / invested_capital r else 0)"
  using assms unfolding calculate_dcf_body_def
  apply (simp only: Let_eq_Some bind_eq_Some_conv Some_eq_Some)
  apply (elim exE conjE)
  apply (simp add: Let_def truthy_def if_Some guard_div guard_div_bind guard_gt_div
      cong: if_cong split del: if_split)
  done

lemma body_excess_returns:
  assumes "calculate_dcf_body a ticker d = Some r"
  shows "excess_returns r = (if roic r \<noteq> 0 \<and> wacc r \<noteq> 0 then roic r - wacc r else 0)"
  using assms unfolding calculate_dcf_body_def
  apply (simp only: Let_eq_Some bind_eq_Some_conv Some_eq_Some)
  apply (elim exE conjE)
  apply (simp add: Let_def truthy_def if_Some guard_div guard_div_bind guard_gt_div
      cong: if_cong split del: if_split)
  done

lemma body_future_fcff:
  assumes "calculate_dcf_body a ticker d = Some r"
  shows "future_fcff r =
     map (\<lambda>t. fcff r * (1 + growth_rate a) ^ t) (py_range 1 (forecast_years a + 1))"
  using assms unfolding calculate_dcf_body_def
  apply (simp only: Let_eq_Some bind_eq_Some_conv Some_eq_Some)
  apply (elim exE conjE)
  apply (simp add: Let_def truthy_def if_Some guard_div guard_div_bind guard_gt_div
      cong: if_cong split del: if_split)
  done

lemma body_last_fcff:
  assumes "calculate_dcf_body a ticker d = Some r"
  shows "last_fcff r = (if future_fcff r \<noteq> [] then last (future_fcff r) else fcff r)"
  using assms unfolding calculate_dcf_body_def
  apply (simp only: Let_eq_Some bind_eq_Some_conv Some_eq_Some)
  apply (elim exE conjE)
  apply (simp add: Let_def truthy_def if_Some guard_div guard_div_bind guard_gt_div
      cong: if_cong split del: if_split)
  done

lemma body_terminal_value:
  assumes "calculate_dcf_body a ticker d = Some r"
  shows "terminal_value r =
     (if wacc r > perpetual_growth_rate a
      then last_fcff r * (1 + perpetual_growth_rate a) / (wacc r - perpetual_growth_rate a)
      else 0)"
  using assms unfolding calculate_dcf_body_def
  apply (simp only: Let_eq_Some bind_eq_Some_conv Some_eq_Some)
  apply (elim exE conjE)
  apply (simp add: Let_def truthy_def if_Some guard_div guard_div_bind guard_gt_div
      cong: if_cong split del: if_split)
  done

lemma body_pv_fcff_raw:
  assumes "calculate_dcf_body a ticker d = Some r"
  shows "those (map (\<lambda>(t, fcf). pdiv fcf ((1 + wacc r) ^ t)) (List.enumerate 1 (future_fcff r)))
     = Some (pv_fcff r)"
  using assms unfolding calculate_dcf_body_def
  apply (simp only: Let_eq_Some bind_eq_Some_conv Some_eq_Some)
  apply (elim exE conjE)
  apply (simp add: Let_def truthy_def if_Some guard_div guard_div_bind guard_gt_div
      cong: if_cong split del: if_split)
  done

lemma body_pv_terminal_raw:
  assumes "calculate_dcf_body a ticker d = Some r"
  shows "(if terminal_value r \<noteq> 0
      then pdiv (terminal_value r) ((1 + wacc r) ^ forecast_years a) else Some 0)
     = Some (pv_terminal r)"
  using assms unfolding calculate_dcf_body_def
  apply (simp only: Let_eq_Some bind_eq_Some_conv Some_eq_Some)
  apply (elim exE conjE)
  apply (simp add: Let_def truthy_def if_Some guard_div guard_div_bind guard_gt_div
      cong: if_cong split del: if_split)
  done

lemma body_total_pv:
  assumes "calculate_dcf_body a ticker d = Some r"
  shows "total_pv r = py_sum (pv_fcff r) + pv_terminal r"
  using assms unfolding calculate_dcf_body_def
  apply (simp only: Let_eq_Some bind_eq_Some_conv Some_eq_Some)
  apply (elim exE conjE)
  apply (simp add: Let_def truthy_def if_Some guard_div guard_div_bind guard_gt_div
      cong: if_cong split del: if_split)
  done

lemma body_market_equity_value:
  assumes "calculate_dcf_body a ticker d = Some r"
  shows "market_equity_value r = total_pv r + cash_equivalents r - total_debt r"
  using assms unfolding calculate_dcf_body_def
  apply (simp only: Let_eq_Some bind_eq_Some_conv Some_eq_Some)
  apply (elim exE conjE)
  apply (simp add: Let_def truthy_def if_Some guard_div guard_div_bind guard_gt_div
      cong: if_cong split del: if_split)
  done

lemma body_fair_value_per_share:
  assumes "calculate_dcf_body a ticker d = Some r"
  shows "fair_value_per_share r =
     (if shares_outstanding r \<noteq> 0 then market_equity_value r / shares_outstanding r else 0)"
  using assms unfolding calculate_dcf_body_def
  apply (simp only: Let_eq_Some bind_eq_Some_conv Some_eq_Some)
  apply (elim exE conjE)
  apply (simp add: Let_def truthy_def if_Some guard_div guard_div_bind guard_gt_div
      cong: if_cong split del: if_split)
  done

lemma body_upside:
  assumes "calculate_dcf_body a ticker d = Some r"
  shows "upside r =
     (if truthy (current_price r)
      then (fair_value_per_share r - current_price r) / current_price r * Fin 100 else 0)"
  using assms unfolding calculate_dcf_body_def
  apply (simp only: Let_eq_Some bind_eq_Some_conv Some_eq_Some)
  apply (elim exE conjE)
  apply (simp add: Let_def truthy_def if_Some guard_div guard_div_bind guard_gt_div
      cong: if_cong split del: if_split)
  done

lemma body_margin_of_safety_pct:
  assumes "calculate_dcf_body a ticker d = Some r"
  shows "margin_of_safety_pct r =
     (if fair_value_per_share r \<noteq> 0
      then (fair_value_per_share r - current_price r) / fair_value_per_share r * Fin 100
      else 0)"
  using assms unfolding calculate_dcf_body_def
  apply (simp only: Let_eq_Some bind_eq_Some_conv Some_eq_Some)
  apply (elim exE conjE)
  apply (simp add: Let_def truthy_def if_Some guard_div guard_div_bind guard_gt_div
      cong: if_cong split del: if_split)
  done

lemma body_valuation:
  assumes "calculate_dcf_body a ticker d = Some r"
  shows "valuation r = (if upside r > 0 then ''Undervalued'' else ''Overvalued'')"
  using assms unfolding calculate_dcf_body_def
  apply (simp only: Let_eq_Some bind_eq_Some_conv Some_eq_Some)
  apply (elim exE conjE)
  apply (simp add: Let_def truthy_def if_Some guard_div guard_div_bind guard_gt_div
      cong: if_cong split del: if_split)
  done

lemma body_discount_nz:
  assumes "calculate_dcf_body a ticker d = Some r"
  shows "(1 + wacc r) ^ t \<noteq> 0"
  by (subst body_wacc [OF assms]) (rule clamp_power_nz; simp)

lemma body_pv_fcff:
  assumes "calculate_dcf_body a ticker d = Some r"
  shows "pv_fcff r = map (\<lambda>(t, fcf). fcf / (1 + wacc r) ^ t) (List.enumerate 1 (future_fcff r))"
  using body_pv_fcff_raw [OF assms] those_pdiv [of "1 + wacc r", OF body_discount_nz [OF assms]]
  by simp

lemma body_pv_terminal:
  assumes "calculate_dcf_body a ticker d = Some r"
  shows "pv_terminal r =
     (if terminal_value r \<noteq> 0 then terminal_value r / (1 + wacc r) ^ forecast_years a else 0)"
  using body_pv_terminal_raw [OF assms] body_discount_nz [OF assms, of "forecast_years a"]
  by (simp add: pdiv_def split: if_splits)

section \<open>Forecast and present values\<close>

lemma py_range_length: "length (py_range 1 (n + 1)) = n"
  by (simp add: py_range_def)

lemma py_range_nth: "1 \<le> t \<Longrightarrow> t \<le> n \<Longrightarrow> py_range 1 (n + 1) ! (t - 1) = t"
  using nth_upt [of 1 "t - 1" "n + 1"] by (simp add: py_range_def del: upt_Suc)

lemma source_assumptions_simps:
  "risk_free_rate source_assumptions = Fin 0.0917"
  "market_return source_assumptions = Fin 0.08"
  "growth_rate source_assumptions = Fin 0.05"
  "perpetual_growth_rate source_assumptions = Fin 0.03"
  "forecast_years source_assumptions = 5"
  by (simp_all add: source_assumptions_def)

lemma example_data_simps:
  "line_item (financials example_data) ''EBIT'' = Fin 1000"
  "line_item (financials example_data) ''Income Tax Expense'' = Fin 250"
  "line_item (financials example_data) ''Pretax Income'' = Fin 1000"
  "line_item (financials example_data) ''Interest Expense'' = 0"
  "line_item (financials example_data) ''Net Income'' = 0"
  "line_item (cashflow example_data) ''Depreciation'' = Fin 100"
  "cashflow example_data ''Capital Expenditure'' = Some (Fin (- 150))"
  "line_item (cashflow example_data) ''Change in Working Capital'' = Fin 50"
  "line_item (balance_sheet example_data) ''Total Debt'' = Fin 0"
  "line_item (balance_sheet example_data) ''Cash And Cash Equivalents'' = 0"
  "line_item (balance_sheet example_data) ''Total Current Assets'' = 0"
  "line_item (balance_sheet example_data) ''Total Current Liabilities'' = 0"
  "line_item (balance_sheet example_data) ''Net PPE'' = 0"
  "get (info example_data) ''sharesOutstanding'' 0 = Fin 100"
  "get (info example_data) ''marketCap'' 0 = Fin 10000"
  "get (info example_data) ''beta'' 1 = Fin 1"
  "get (info example_data) ''currentPrice'' 0 = 0"
  by (simp_all add: example_data_def line_item_def get_def)

lemma body_primary_inputs:
  assumes "calculate_dcf_body a ticker d = Some r"
  shows "ebit r = line_item (financials d) ''EBIT''"
    "taxes r = line_item (financials d) ''Income Tax Expense''"
    "income_before_tax r = line_item (financials d) ''Pretax Income''"
    "depreciation r = line_item (cashflow d) ''Depreciation''"
    "capex r = (case cashflow d ''Capital Expenditure'' of Some v \<Rightarrow> - v | None \<Rightarrow> 0)"
    "working_capital_change r = line_item (cashflow d) ''Change in Working Capital''"
    "interest_expense r = line_item (financials d) ''Interest Expense''"
  using body_inputs [OF assms] by simp_all

lemma body_capital_inputs:
  assumes "calculate_dcf_body a ticker d = Some r"
  shows "total_debt r = line_item (balance_sheet d) ''Total Debt''"
    "cash_equivalents r = line_item (balance_sheet d) ''Cash And Cash Equivalents''"
    "shares_outstanding r = get (info d) ''sharesOutstanding'' 0"
    "market_cap r = get (info d) ''marketCap'' 0"
    "beta r = get (info d) ''beta'' 1"
  using body_inputs [OF assms] by simp_all

lemma body_fcff_let:
  assumes R: "calculate_dcf_body a ticker d = Some r"
  shows "fcff r =
          (let primary = ebit r * (1 - effective_tax_rate r) + depreciation r - capex r
                           - working_capital_change r;
               net_income = (case financials d ''Net Income'' of Some v \<Rightarrow> v | None \<Rightarrow> 0)
           in if isnan primary \<or> primary \<le> 0
              then net_income + interest_expense r * (1 - effective_tax_rate r)
                     + depreciation r - capex r - working_capital_change r
              else primary)"
  unfolding Let_def line_item_def [symmetric] by (rule body_fcff [OF R])

lemma body_future_fcff_length:
  assumes R: "calculate_dcf_body a ticker d = Some r"
  shows "length (future_fcff r) = forecast_years a"
  by (simp only: body_future_fcff [OF R] length_map py_range_length)

lemma body_future_fcff_nth:
  assumes R: "calculate_dcf_body a ticker d = Some r"
  shows "\<forall>t. 1 \<le> t \<and> t \<le> forecast_years a
            \<longrightarrow> future_fcff r ! (t - 1) = fcff r * (1 + growth_rate a) ^ t"
proof (intro allI impI, elim conjE)
  fix t
  assume t: "1 \<le> t" "t \<le> forecast_years a"
  then have "t - 1 < length (py_range 1 (forecast_years a + 1))"
    by (simp only: py_range_length)
  then have "future_fcff r ! (t - 1)
      = fcff r * (1 + growth_rate a) ^ (py_range 1 (forecast_years a + 1) ! (t - 1))"
    by (simp only: body_future_fcff [OF R] nth_map)
  with t show "future_fcff r ! (t - 1) = fcff r * (1 + growth_rate a) ^ t"
    by (simp only: py_range_nth)
qed

lemma body_pv_fcff_length:
  assumes R: "calculate_dcf_body a ticker d = Some r"
  shows "length (pv_fcff r) = forecast_years a"
  by (simp add: body_pv_fcff [OF R] body_future_fcff_length [OF R])

lemma body_pv_fcff_nth:
  assumes R: "calculate_dcf_body a ticker d = Some r"
  shows "\<forall>t. 1 \<le> t \<and> t \<le> forecast_years a
            \<longrightarrow> pv_fcff r ! (t - 1) = future_fcff r ! (t - 1) / (1 + wacc r) ^ t"
proof (intro allI impI, elim conjE)
  fix t
  assume t: "1 \<le> t" "t \<le> forecast_years a"
  with body_future_fcff_length [OF R] have lt: "t - 1 < length (future_fcff r)" by simp
  then have "List.enumerate 1 (future_fcff r) ! (t - 1) = (1 + (t - 1), future_fcff r ! (t - 1))"
    by (rule nth_enumerate_eq)
  with t lt show "pv_fcff r ! (t - 1) = future_fcff r ! (t - 1) / (1 + wacc r) ^ t"
    by (simp add: body_pv_fcff [OF R])
qed

lemma body_last_fcff_nth:
  assumes R: "calculate_dcf_body a ticker d = Some r" and n: "0 < forecast_years a"
  shows "last_fcff r = future_fcff r ! (forecast_years a - 1)"
proof -
  note len = body_future_fcff_length [OF R]
  with n have ne: "future_fcff r \<noteq> []" by auto
  then have "last (future_fcff r) = future_fcff r ! (forecast_years a - 1)"
    by (simp add: last_conv_nth len)
  with ne show ?thesis
    by (simp add: body_last_fcff [OF R])
qed

lemma list5:
  assumes "length xs = 5"
  shows "xs = [xs ! 0, xs ! 1, xs ! 2, xs ! 3, xs ! 4]"
proof (rule nth_equalityI)
  show "length xs = length [xs ! 0, xs ! 1, xs ! 2, xs ! 3, xs ! 4]"
    using assms by simp
next
  fix i
  assume "i < length xs"
  with assms have "i = 0 \<or> i = 1 \<or> i = 2 \<or> i = 3 \<or> i = 4" by auto
  then show "xs ! i = [xs ! 0, xs ! 1, xs ! 2, xs ! 3, xs ! 4] ! i"
    by (elim disjE) simp_all
qed

lemma clamp_above:
  assumes "g < Fin lo" and "lo \<le> hi"
  shows "\<not> py_min (py_max w (Fin lo)) (Fin hi) \<le> g"
proof (cases w)
  case NaN
  then show ?thesis by (simp add: clamp_NaN)
next
  case (Fin x)
  with assms show ?thesis
    by (cases g) (simp_all add: clamp_Fin min_def max_def)
qed

text \<open>
  Claim C1. For every snapshot \<open>d\<close> and every choice of the assumptions, with \<open>n\<close> forecast
  years, the valuation returns a result computed from the snapshot: the line items are
  those of \<open>d\<close>, FCFF and WACC are computed from them (lines 79 to 96), \<open>future_fcff\<close> has \<open>n\<close>
  entries and its entry for year \<open>t\<close> (at index \<open>t - 1\<close>) is \<open>fcff * (1 + growth_rate) ^ t\<close>,
  \<open>pv_fcff\<close> has \<open>n\<close> entries and its entry for year \<open>t\<close> is that of \<open>future_fcff\<close> divided by
  \<open>(1 + wacc) ^ t\<close>, the terminal value and its present value are those of lines 106 and
  109, \<open>total_pv\<close> is the sum of \<open>pv_fcff\<close> plus \<open>pv_terminal\<close>, the market equity value is
  \<open>total_pv\<close> plus cash minus debt, and the fair value per share is the market equity value
  divided by the shares outstanding when these are not 0, and 0 otherwise. The equations
  fix every value of the result in terms of \<open>d\<close> and the assumptions.
\<close>

theorem forecast_and_present_values:
  "\<exists>r. calculate_dcf_body a ticker d = Some r
     \<and> ebit r = line_item (financials d) ''EBIT''
     \<and> taxes r = line_item (financials d) ''Income Tax Expense''
     \<and> income_before_tax r = line_item (financials d) ''Pretax Income''
     \<and> depreciation r = line_item (cashflow d) ''Depreciation''
     \<and> capex r = (case cashflow d ''Capital Expenditure'' of Some v \<Rightarrow> - v | None \<Rightarrow> 0)
     \<and> working_capital_change r = line_item (cashflow d) ''Change in Working Capital''
     \<and> interest_expense r = line_item (financials d) ''Interest Expense''
     \<and> total_debt r = line_item (balance_sheet d) ''Total Debt''
     \<and> cash_equivalents r = line_item (balance_sheet d) ''Cash And Cash Equivalents''
     \<and> shares_outstanding r = get (info d) ''sharesOutstanding'' 0
     \<and> market_cap r = get (info d) ''marketCap'' 0
     \<and> beta r = get (info d) ''beta'' 1
     \<and> effective_tax_rate r =
          (if income_before_tax r \<noteq> 0 then taxes r / income_before_tax r else Fin 0.25)
     \<and> fcff r =
          (let primary = ebit r * (1 - effective_tax_rate r) + depreciation r - capex r
                           - working_capital_change r;
               net_income = (case financials d ''Net Income'' of Some v \<Rightarrow> v | None \<Rightarrow> 0)
           in if isnan primary \<or> primary \<le> 0
              then net_income + interest_expense r * (1 - effective_tax_rate r)
                     + depreciation r - capex r - working_capital_change r
              else primary)
     \<and> cost_of_debt r =
          (if total_debt r \<noteq> 0
           then interest_expense r / total_debt r * (1 - effective_tax_rate r) else 0)
     \<and> cost_of_equity r = risk_free_rate a + beta r * (market_return a - risk_free_rate a)
     \<and> total_weight r = total_debt r + market_cap r
     \<and> weight_debt r = (if total_weight r \<noteq> 0 then total_debt r / total_weight r else 0)
     \<and> weight_equity r = (if total_weight r \<noteq> 0 then market_cap r / total_weight r else 1)
     \<and> wacc r =
          py_min (py_max (weight_equity r * cost_of_equity r + weight_debt r * cost_of_debt r)
                    (Fin 0.05)) (Fin 0.25)
     \<and> length (future_fcff r) = forecast_years a
     \<and> (\<forall>t. 1 \<le> t \<and> t \<le> forecast_years a
            \<longrightarrow> future_fcff r ! (t - 1) = fcff r * (1 + growth_rate a) ^ t)
     \<and> length (pv_fcff r) = forecast_years a
     \<and> (\<forall>t. 1 \<le> t \<and> t \<le> forecast_years a
            \<longrightarrow> pv_fcff r ! (t - 1) = future_fcff r ! (t - 1) / (1 + wacc r) ^ t)
     \<and> last_fcff r = (if future_fcff r \<noteq> [] then last (future_fcff r) else fcff r)
     \<and> terminal_value r =
          (if wacc r > perpetual_growth_rate a
           then last_fcff r * (1 + perpetual_growth_rate a) / (wacc r - perpetual_growth_rate a)
           else 0)
     \<and> pv_terminal r =
          (if terminal_value r \<noteq> 0 then terminal_value r / (1 + wacc r) ^ forecast_years a
           else 0)
     \<and> total_pv r = py_sum (pv_fcff r) + pv_terminal r
     \<and> market_equity_value r = total_pv r + cash_equivalents r - total_debt r
     \<and> fair_value_per_share r =
          (if shares_outstanding r \<noteq> 0 then market_equity_value r / shares_outstanding r
           else 0)"
proof -
  obtain r where R: "calculate_dcf_body a ticker d = Some r"
    using body_Some by blast
  show ?thesis
    by (rule exI [of _ r], intro conjI)
      (fact R body_primary_inputs [OF R] body_capital_inputs [OF R]
        body_effective_tax_rate [OF R] body_fcff_let [OF R] body_cost_of_debt [OF R]
        body_cost_of_equity [OF R] body_total_weight [OF R] body_weight_debt [OF R]
        body_weight_equity [OF R] body_wacc [OF R] body_future_fcff_length [OF R]
        body_future_fcff_nth [OF R] body_pv_fcff_length [OF R] body_pv_fcff_nth [OF R]
        body_last_fcff [OF R] body_terminal_value [OF R] body_pv_terminal [OF R]
        body_total_pv [OF R] body_market_equity_value [OF R]
        body_fair_value_per_share [OF R])+
qed

theorem forecast_and_present_values_witness:
  "\<exists>r. calculate_dcf_body source_assumptions ''ABG.JO'' example_data = Some r
     \<and> fcff r = Fin 650
     \<and> wacc r = Fin 0.08
     \<and> future_fcff r
         = [Fin (650 * 1.05), Fin (650 * 1.05 ^ 2), Fin (650 * 1.05 ^ 3), Fin (650 * 1.05 ^ 4),
            Fin (650 * 1.05 ^ 5)]
     \<and> pv_fcff r
         = [Fin (650 * 1.05 / 1.08), Fin (650 * 1.05 ^ 2 / 1.08 ^ 2),
            Fin (650 * 1.05 ^ 3 / 1.08 ^ 3), Fin (650 * 1.05 ^ 4 / 1.08 ^ 4),
            Fin (650 * 1.05 ^ 5 / 1.08 ^ 5)]
     \<and> pv_terminal r = Fin (650 * 1.05 ^ 5 * 1.03 / 0.05 / 1.08 ^ 5)
     \<and> total_pv r = Fin (245555765 / 16796.16)
     \<and> cash_equivalents r = 0
     \<and> total_debt r = Fin 0
     \<and> market_equity_value r = Fin (245555765 / 16796.16)
     \<and> shares_outstanding r = Fin 100
     \<and> fair_value_per_share r = Fin (245555765 / 1679616)"
proof -
  from forecast_and_present_values [of source_assumptions "''ABG.JO''" example_data]
  obtain r where R: "calculate_dcf_body source_assumptions ''ABG.JO'' example_data = Some r"
    and inp: "ebit r = line_item (financials example_data) ''EBIT''"
      "taxes r = line_item (financials example_data) ''Income Tax Expense''"
      "income_before_tax r = line_item (financials example_data) ''Pretax Income''"
      "depreciation r = line_item (cashflow example_data) ''Depreciation''"
      "capex r = (case cashflow example_data ''Capital Expenditure'' of Some v \<Rightarrow> - v
                  | None \<Rightarrow> 0)"
      "working_capital_change r = line_item (cashflow example_data) ''Change in Working Capital''"
      "interest_expense r = line_item (financials example_data) ''Interest Expense''"
      "total_debt r = line_item (balance_sheet example_data) ''Total Debt''"
      "cash_equivalents r = line_item (balance_sheet example_data) ''Cash And Cash Equivalents''"
      "shares_outstanding r = get (info example_data) ''sharesOutstanding'' 0"
      "market_cap r = get (info example_data) ''marketCap'' 0"
      "beta r = get (info example_data) ''beta'' 1"
    and etr: "effective_tax_rate r =
          (if income_before_tax r \<noteq> 0 then taxes r / income_before_tax r else Fin 0.25)"
    and fcff: "fcff r =
          (let primary = ebit r * (1 - effective_tax_rate r) + depreciation r - capex r
                           - working_capital_change r;
               net_income = (case financials example_data ''Net Income'' of Some v \<Rightarrow> v
                             | None \<Rightarrow> 0)
           in if isnan primary \<or> primary \<le> 0
              then net_income + interest_expense r * (1 - effective_tax_rate r)
                     + depreciation r - capex r - working_capital_change r
              else primary)"
    and cd: "cost_of_debt r =
          (if total_debt r \<noteq> 0
           then interest_expense r / total_debt r * (1 - effective_tax_rate r) else 0)"
    and ce: "cost_of_equity r = risk_free_rate source_assumptions
          + beta r * (market_return source_assumptions - risk_free_rate source_assumptions)"
    and tw: "total_weight r = total_debt r + market_cap r"
    and wd: "weight_debt r = (if total_weight r \<noteq> 0 then total_debt r / total_weight r else 0)"
    and we: "weight_equity r
          = (if total_weight r \<noteq> 0 then market_cap r / total_weight r else 1)"
    and wacc: "wacc r =
          py_min (py_max (weight_equity r * cost_of_equity r + weight_debt r * cost_of_debt r)
                    (Fin 0.05)) (Fin 0.25)"
    and len: "length (future_fcff r) = forecast_years source_assumptions"
    and nth: "\<forall>t. 1 \<le> t \<and> t \<le> forecast_years source_assumptions
            \<longrightarrow> future_fcff r ! (t - 1) = fcff r * (1 + growth_rate source_assumptions) ^ t"
    and len_pv: "length (pv_fcff r) = forecast_years source_assumptions"
    and nth_pv: "\<forall>t. 1 \<le> t \<and> t \<le> forecast_years source_assumptions
            \<longrightarrow> pv_fcff r ! (t - 1) = future_fcff r ! (t - 1) / (1 + wacc r) ^ t"
    and last: "last_fcff r = (if future_fcff r \<noteq> [] then last (future_fcff r) else fcff r)"
    and tv: "terminal_value r =
          (if wacc r > perpetual_growth_rate source_assumptions
           then last_fcff r * (1 + perpetual_growth_rate source_assumptions)
                  / (wacc r - perpetual_growth_rate source_assumptions)
           else 0)"
    and pvt: "pv_terminal r =
          (if terminal_value r \<noteq> 0
           then terminal_value r / (1 + wacc r) ^ forecast_years source_assumptions
           else 0)"
    and tot: "total_pv r = py_sum (pv_fcff r) + pv_terminal r"
    and mev: "market_equity_value r = total_pv r + cash_equivalents r - total_debt r"
    and fv: "fair_value_per_share r =
          (if shares_outstanding r \<noteq> 0 then market_equity_value r / shares_outstanding r
           else 0)"
    by (elim exE conjE)
  have v: "ebit r = Fin 1000" "taxes r = Fin 250" "income_before_tax r = Fin 1000"
    "depreciation r = Fin 100" "capex r = Fin 150" "working_capital_change r = Fin 50"
    "total_debt r = Fin 0" "cash_equivalents r = 0" "shares_outstanding r = Fin 100"
    "market_cap r = Fin 10000" "beta r = Fin 1"
    by (simp_all add: inp example_data_simps)
  have etr': "effective_tax_rate r = Fin 0.25"
    by (simp add: etr v zero_number_def)
  have fcff': "fcff r = Fin 650"
    by (simp add: fcff v etr' Let_def isnan_def zero_number_def one_number_def)
  have tw': "total_weight r = Fin 10000"
    by (simp add: tw v)
  have we': "weight_equity r = Fin 1"
    by (simp add: we tw' v zero_number_def)
  have wd': "weight_debt r = Fin 0"
    by (simp add: wd tw' v zero_number_def)
  have ce': "cost_of_equity r = Fin 0.08"
    by (simp add: ce v source_assumptions_simps)
  have cd': "cost_of_debt r = Fin 0"
    by (simp add: cd v zero_number_def)
  have wacc': "wacc r = Fin 0.08"
    by (simp add: wacc we' wd' ce' cd' clamp_Fin)
  have len5: "length (future_fcff r) = 5" "length (pv_fcff r) = 5"
    using len len_pv by (simp_all add: source_assumptions_simps)
  have f: "future_fcff r ! 0 = Fin (650 * 1.05)" "future_fcff r ! 1 = Fin (650 * 1.05 ^ 2)"
    "future_fcff r ! 2 = Fin (650 * 1.05 ^ 3)" "future_fcff r ! 3 = Fin (650 * 1.05 ^ 4)"
    "future_fcff r ! 4 = Fin (650 * 1.05 ^ 5)"
    using nth [rule_format, of 1] nth [rule_format, of 2] nth [rule_format, of 3]
      nth [rule_format, of 4] nth [rule_format, of 5]
    by (simp_all add: fcff' source_assumptions_simps one_number_def power_divide)
  have ff: "future_fcff r
      = [Fin (650 * 1.05), Fin (650 * 1.05 ^ 2), Fin (650 * 1.05 ^ 3), Fin (650 * 1.05 ^ 4),
         Fin (650 * 1.05 ^ 5)]"
    by (subst list5 [OF len5(1)]) (simp only: f)
  have p: "pv_fcff r ! 0 = Fin (650 * 1.05 / 1.08)"
    "pv_fcff r ! 1 = Fin (650 * 1.05 ^ 2 / 1.08 ^ 2)"
    "pv_fcff r ! 2 = Fin (650 * 1.05 ^ 3 / 1.08 ^ 3)"
    "pv_fcff r ! 3 = Fin (650 * 1.05 ^ 4 / 1.08 ^ 4)"
    "pv_fcff r ! 4 = Fin (650 * 1.05 ^ 5 / 1.08 ^ 5)"
    using nth_pv [rule_format, of 1] nth_pv [rule_format, of 2] nth_pv [rule_format, of 3]
      nth_pv [rule_format, of 4] nth_pv [rule_format, of 5] f
    by (simp_all add: wacc' source_assumptions_simps one_number_def power_divide)
  have pv: "pv_fcff r
      = [Fin (650 * 1.05 / 1.08), Fin (650 * 1.05 ^ 2 / 1.08 ^ 2),
         Fin (650 * 1.05 ^ 3 / 1.08 ^ 3), Fin (650 * 1.05 ^ 4 / 1.08 ^ 4),
         Fin (650 * 1.05 ^ 5 / 1.08 ^ 5)]"
    by (subst list5 [OF len5(2)]) (simp only: p)
  have last': "last_fcff r = Fin (650 * 1.05 ^ 5)"
    by (simp add: last ff power_divide)
  have tv': "terminal_value r = Fin (650 * 1.05 ^ 5 * 1.03 / 0.05)"
    by (simp add: tv last' wacc' source_assumptions_simps one_number_def power_divide)
  have pvt': "pv_terminal r = Fin (650 * 1.05 ^ 5 * 1.03 / 0.05 / 1.08 ^ 5)"
    by (simp add: pvt tv' wacc' source_assumptions_simps one_number_def zero_number_def
        power_divide)
  have tot': "total_pv r = Fin (245555765 / 16796.16)"
    by (simp add: tot pv pvt' py_sum_def zero_number_def power_divide)
  have mev': "market_equity_value r = Fin (245555765 / 16796.16)"
    by (simp add: mev tot' v zero_number_def)
  have fv': "fair_value_per_share r = Fin (245555765 / 1679616)"
    by (simp add: fv mev' v zero_number_def)
  from R fcff' wacc' ff pv pvt' tot' v(7,8,9) mev' fv' show ?thesis
    by (intro exI [of _ r] conjI)
qed

section \<open>Free cash flow to the firm\<close>

lemma no_data_simps:
  "line_item (financials no_data) k = 0"
  "line_item (balance_sheet no_data) k = 0"
  "line_item (cashflow no_data) k = 0"
  "cashflow no_data k = None"
  "get (info no_data) k v = v"
  by (simp_all add: no_data_def line_item_def get_def)

lemma loss_data_simps:
  "line_item (financials loss_data) ''EBIT'' = Fin (- 100)"
  "line_item (financials loss_data) ''Income Tax Expense'' = 0"
  "line_item (financials loss_data) ''Pretax Income'' = 0"
  "line_item (financials loss_data) ''Interest Expense'' = Fin 40"
  "financials loss_data ''Net Income'' = Some (Fin 80)"
  "line_item (cashflow loss_data) k = 0"
  "cashflow loss_data k = None"
  by (simp_all add: loss_data_def no_data_def line_item_def)

lemma nan_ebit_data_simps:
  "line_item (financials nan_ebit_data) ''EBIT'' = NaN"
  "line_item (financials nan_ebit_data) ''Income Tax Expense'' = 0"
  "line_item (financials nan_ebit_data) ''Pretax Income'' = 0"
  "line_item (financials nan_ebit_data) ''Interest Expense'' = 0"
  "financials nan_ebit_data ''Net Income'' = Some (Fin 80)"
  "line_item (cashflow nan_ebit_data) k = 0"
  "cashflow nan_ebit_data k = None"
  by (simp_all add: nan_ebit_data_def no_data_def line_item_def)

text \<open>
  Claim C2. For every snapshot \<open>d\<close> the valuation returns, its line items are those of \<open>d\<close>,
  and with the primary value
  \<open>ebit * (1 - effective_tax_rate) + depreciation - capex - working_capital_change\<close>, where
  the effective tax rate is \<open>taxes / income_before_tax\<close> or 0.25 when the pretax income is 0,
  \<open>fcff\<close> is the fallback value
  \<open>net_income + interest_expense * (1 - effective_tax_rate) + depreciation - capex -
  working_capital_change\<close> exactly when the primary value is NaN or not positive, and the
  primary value otherwise; \<open>net_income\<close> is the row \<^verbatim>\<open>Net Income\<close> of the income statement of
  \<open>d\<close>, and 0 when that row is absent.
\<close>

theorem fallback_fcff:
  "\<exists>r. calculate_dcf_body a ticker d = Some r
     \<and> ebit r = line_item (financials d) ''EBIT''
     \<and> taxes r = line_item (financials d) ''Income Tax Expense''
     \<and> income_before_tax r = line_item (financials d) ''Pretax Income''
     \<and> depreciation r = line_item (cashflow d) ''Depreciation''
     \<and> capex r = (case cashflow d ''Capital Expenditure'' of Some v \<Rightarrow> - v | None \<Rightarrow> 0)
     \<and> working_capital_change r = line_item (cashflow d) ''Change in Working Capital''
     \<and> interest_expense r = line_item (financials d) ''Interest Expense''
     \<and> effective_tax_rate r =
          (if income_before_tax r \<noteq> 0 then taxes r / income_before_tax r else Fin 0.25)
     \<and> fcff r =
          (let primary = ebit r * (1 - effective_tax_rate r) + depreciation r - capex r
                           - working_capital_change r;
               net_income = (case financials d ''Net Income'' of Some v \<Rightarrow> v | None \<Rightarrow> 0)
           in if isnan primary \<or> primary \<le> 0
              then net_income + interest_expense r * (1 - effective_tax_rate r)
                     + depreciation r - capex r - working_capital_change r
              else primary)"
proof -
  obtain r where R: "calculate_dcf_body a ticker d = Some r"
    using body_Some by blast
  show ?thesis
    by (rule exI [of _ r], intro conjI)
      (fact R body_primary_inputs [OF R] body_effective_tax_rate [OF R] body_fcff_let [OF R])+
qed

theorem fallback_fcff_witness:
  "(\<exists>r. calculate_dcf_body source_assumptions ''ABG.JO'' example_data = Some r
        \<and> ebit r = Fin 1000 \<and> effective_tax_rate r = Fin 0.25 \<and> depreciation r = Fin 100
        \<and> capex r = Fin 150 \<and> working_capital_change r = Fin 50
        \<and> fcff r = Fin 650)
   \<and> (\<exists>r. calculate_dcf_body source_assumptions ''ADH.JO'' loss_data = Some r
        \<and> ebit r = Fin (- 100) \<and> effective_tax_rate r = Fin 0.25
        \<and> interest_expense r = Fin 40
        \<and> ebit r * (1 - effective_tax_rate r) + depreciation r - capex r
             - working_capital_change r = Fin (- 75)
        \<and> fcff r = Fin 110)
   \<and> (\<exists>r. calculate_dcf_body source_assumptions ''AEL.JO'' nan_ebit_data = Some r
        \<and> ebit r = NaN
        \<and> ebit r * (1 - effective_tax_rate r) + depreciation r - capex r
             - working_capital_change r = NaN
        \<and> fcff r = Fin 80)"
proof (intro conjI)
  from fallback_fcff [of source_assumptions "''ABG.JO''" example_data]
  obtain r where R: "calculate_dcf_body source_assumptions ''ABG.JO'' example_data = Some r"
    and inp: "ebit r = line_item (financials example_data) ''EBIT''"
      "taxes r = line_item (financials example_data) ''Income Tax Expense''"
      "income_before_tax r = line_item (financials example_data) ''Pretax Income''"
      "depreciation r = line_item (cashflow example_data) ''Depreciation''"
      "capex r = (case cashflow example_data ''Capital Expenditure'' of Some v \<Rightarrow> - v
                  | None \<Rightarrow> 0)"
      "working_capital_change r = line_item (cashflow example_data) ''Change in Working Capital''"
      "interest_expense r = line_item (financials example_data) ''Interest Expense''"
    and etr: "effective_tax_rate r =
          (if income_before_tax r \<noteq> 0 then taxes r / income_before_tax r else Fin 0.25)"
    and fcff: "fcff r =
          (let primary = ebit r * (1 - effective_tax_rate r) + depreciation r - capex r
                           - working_capital_change r;
               net_income = (case financials example_data ''Net Income'' of Some v \<Rightarrow> v
                             | None \<Rightarrow> 0)
           in if isnan primary \<or> primary \<le> 0
              then net_income + interest_expense r * (1 - effective_tax_rate r)
                     + depreciation r - capex r - working_capital_change r
              else primary)"
    by (elim exE conjE)
  have v: "ebit r = Fin 1000" "taxes r = Fin 250" "income_before_tax r = Fin 1000"
    "depreciation r = Fin 100" "capex r = Fin 150" "working_capital_change r = Fin 50"
    by (simp_all add: inp example_data_simps)
  have e: "effective_tax_rate r = Fin 0.25"
    by (simp add: etr v zero_number_def)
  have "fcff r = Fin 650"
    by (simp add: fcff v e Let_def isnan_def zero_number_def one_number_def)
  with R v e
  show "\<exists>r. calculate_dcf_body source_assumptions ''ABG.JO'' example_data = Some r
        \<and> ebit r = Fin 1000 \<and> effective_tax_rate r = Fin 0.25 \<and> depreciation r = Fin 100
        \<and> capex r = Fin 150 \<and> working_capital_change r = Fin 50
        \<and> fcff r = Fin 650"
    by (intro exI [of _ r]) simp
next
  from fallback_fcff [of source_assumptions "''ADH.JO''" loss_data]
  obtain r where R: "calculate_dcf_body source_assumptions ''ADH.JO'' loss_data = Some r"
    and inp: "ebit r = line_item (financials loss_data) ''EBIT''"
      "taxes r = line_item (financials loss_data) ''Income Tax Expense''"
      "income_before_tax r = line_item (financials loss_data) ''Pretax Income''"
      "depreciation r = line_item (cashflow loss_data) ''Depreciation''"
      "capex r = (case cashflow loss_data ''Capital Expenditure'' of Some v \<Rightarrow> - v
                  | None \<Rightarrow> 0)"
      "working_capital_change r = line_item (cashflow loss_data) ''Change in Working Capital''"
      "interest_expense r = line_item (financials loss_data) ''Interest Expense''"
    and etr: "effective_tax_rate r =
          (if income_before_tax r \<noteq> 0 then taxes r / income_before_tax r else Fin 0.25)"
    and fcff: "fcff r =
          (let primary = ebit r * (1 - effective_tax_rate r) + depreciation r - capex r
                           - working_capital_change r;
               net_income = (case financials loss_data ''Net Income'' of Some v \<Rightarrow> v
                             | None \<Rightarrow> 0)
           in if isnan primary \<or> primary \<le> 0
              then net_income + interest_expense r * (1 - effective_tax_rate r)
                     + depreciation r - capex r - working_capital_change r
              else primary)"
    by (elim exE conjE)
  have v: "ebit r = Fin (- 100)" "taxes r = 0" "income_before_tax r = 0"
    "depreciation r = 0" "capex r = 0" "working_capital_change r = 0"
    "interest_expense r = Fin 40"
    by (simp_all add: inp loss_data_simps)
  have e: "effective_tax_rate r = Fin 0.25"
    by (simp add: etr v)
  have p: "ebit r * (1 - effective_tax_rate r) + depreciation r - capex r
             - working_capital_change r = Fin (- 75)"
    by (simp add: v e zero_number_def one_number_def)
  have "fcff r = Fin 110"
    unfolding fcff Let_def p
    by (simp add: v e loss_data_simps isnan_def zero_number_def one_number_def)
  with R v e p
  show "\<exists>r. calculate_dcf_body source_assumptions ''ADH.JO'' loss_data = Some r
        \<and> ebit r = Fin (- 100) \<and> effective_tax_rate r = Fin 0.25
        \<and> interest_expense r = Fin 40
        \<and> ebit r * (1 - effective_tax_rate r) + depreciation r - capex r
             - working_capital_change r = Fin (- 75)
        \<and> fcff r = Fin 110"
    by (intro exI [of _ r]) simp
next
  from fallback_fcff [of source_assumptions "''AEL.JO''" nan_ebit_data]
  obtain r where R: "calculate_dcf_body source_assumptions ''AEL.JO'' nan_ebit_data = Some r"
    and inp: "ebit r = line_item (financials nan_ebit_data) ''EBIT''"
      "taxes r = line_item (financials nan_ebit_data) ''Income Tax Expense''"
      "income_before_tax r = line_item (financials nan_ebit_data) ''Pretax Income''"
      "depreciation r = line_item (cashflow nan_ebit_data) ''Depreciation''"
      "capex r = (case cashflow nan_ebit_data ''Capital Expenditure'' of Some v \<Rightarrow> - v
                  | None \<Rightarrow> 0)"
      "working_capital_change r
         = line_item (cashflow nan_ebit_data) ''Change in Working Capital''"
      "interest_expense r = line_item (financials nan_ebit_data) ''Interest Expense''"
    and etr: "effective_tax_rate r =
          (if income_before_tax r \<noteq> 0 then taxes r / income_before_tax r else Fin 0.25)"
    and fcff: "fcff r =
          (let primary = ebit r * (1 - effective_tax_rate r) + depreciation r - capex r
                           - working_capital_change r;
               net_income = (case financials nan_ebit_data ''Net Income'' of Some v \<Rightarrow> v
                             | None \<Rightarrow> 0)
           in if isnan primary \<or> primary \<le> 0
              then net_income + interest_expense r * (1 - effective_tax_rate r)
                     + depreciation r - capex r - working_capital_change r
              else primary)"
    by (elim exE conjE)
  have v: "ebit r = NaN" "taxes r = 0" "income_before_tax r = 0"
    "depreciation r = 0" "capex r = 0" "working_capital_change r = 0"
    "interest_expense r = 0"
    by (simp_all add: inp nan_ebit_data_simps)
  have e: "effective_tax_rate r = Fin 0.25"
    by (simp add: etr v)
  have p: "ebit r * (1 - effective_tax_rate r) + depreciation r - capex r
             - working_capital_change r = NaN"
    by (simp add: v e zero_number_def one_number_def)
  have "fcff r = Fin 80"
    unfolding fcff Let_def p
    by (simp add: v e nan_ebit_data_simps isnan_def zero_number_def one_number_def)
  with R v e p
  show "\<exists>r. calculate_dcf_body source_assumptions ''AEL.JO'' nan_ebit_data = Some r
        \<and> ebit r = NaN
        \<and> ebit r * (1 - effective_tax_rate r) + depreciation r - capex r
             - working_capital_change r = NaN
        \<and> fcff r = Fin 80"
    by (intro exI [of _ r]) simp
qed

section \<open>Weighted average cost of capital\<close>

lemma example_capital:
  assumes R: "calculate_dcf_body a ticker example_data = Some r"
    and a: "risk_free_rate a = Fin 0.0917" "market_return a = Fin 0.08"
  shows "weight_equity r = Fin 1" "weight_debt r = Fin 0" "cost_of_equity r = Fin 0.08"
    "cost_of_debt r = Fin 0" "wacc r = Fin 0.08"
proof -
  have td: "total_debt r = Fin 0" and mc: "market_cap r = Fin 10000" and b: "beta r = Fin 1"
    using body_inputs [OF R] by (simp_all add: example_data_simps)
  have tw: "total_weight r = Fin 10000"
    by (simp add: body_total_weight [OF R] td mc)
  show we: "weight_equity r = Fin 1"
    by (simp add: body_weight_equity [OF R] tw mc zero_number_def)
  show wd: "weight_debt r = Fin 0"
    by (simp add: body_weight_debt [OF R] tw td zero_number_def)
  show ce: "cost_of_equity r = Fin 0.08"
    by (simp add: body_cost_of_equity [OF R] a b)
  show cd: "cost_of_debt r = Fin 0"
    by (simp add: body_cost_of_debt [OF R] td zero_number_def)
  show "wacc r = Fin 0.08"
    by (simp add: body_wacc [OF R] we wd ce cd clamp_Fin)
qed

text \<open>
  Claim C3, as amended. For every input whose weighted cost
  \<open>weight_equity * cost_of_equity + weight_debt * cost_of_debt\<close> is a number (not NaN), the
  WACC of the result is that value clamped to the closed interval from 0.05 to 0.25: a
  value at most 0.05 gives exactly 0.05, a value of at least 0.25 gives exactly 0.25, and a
  value strictly between passes through unchanged. (The three cases hold for every input;
  the result lies in the interval when the weighted cost is not NaN.)
\<close>

theorem wacc_clamped:
  "\<exists>r. calculate_dcf_body a ticker d = Some r
     \<and> (let wacc0 = weight_equity r * cost_of_equity r + weight_debt r * cost_of_debt r
        in (wacc0 \<le> Fin 0.05 \<longrightarrow> wacc r = Fin 0.05)
         \<and> (Fin 0.25 \<le> wacc0 \<longrightarrow> wacc r = Fin 0.25)
         \<and> (Fin 0.05 < wacc0 \<and> wacc0 < Fin 0.25 \<longrightarrow> wacc r = wacc0)
         \<and> (\<not> isnan wacc0 \<longrightarrow> Fin 0.05 \<le> wacc r \<and> wacc r \<le> Fin 0.25))"
proof -
  obtain r where R: "calculate_dcf_body a ticker d = Some r"
    using body_Some by blast
  define wacc0 where "wacc0 = weight_equity r * cost_of_equity r + weight_debt r * cost_of_debt r"
  have w: "wacc r = py_min (py_max wacc0 (Fin 0.05)) (Fin 0.25)"
    unfolding wacc0_def by (rule body_wacc [OF R])
  have "(wacc0 \<le> Fin 0.05 \<longrightarrow> wacc r = Fin 0.05)
         \<and> (Fin 0.25 \<le> wacc0 \<longrightarrow> wacc r = Fin 0.25)
         \<and> (Fin 0.05 < wacc0 \<and> wacc0 < Fin 0.25 \<longrightarrow> wacc r = wacc0)
         \<and> (\<not> isnan wacc0 \<longrightarrow> Fin 0.05 \<le> wacc r \<and> wacc r \<le> Fin 0.25)"
  proof (cases wacc0)
    case NaN
    then show ?thesis by (simp add: w isnan_def)
  next
    case (Fin x)
    then show ?thesis by (simp add: w clamp_Fin isnan_def min_def max_def)
  qed
  with R show ?thesis unfolding wacc0_def Let_def by blast
qed

theorem wacc_clamped_witness:
  "\<exists>r. calculate_dcf_body source_assumptions ''ABG.JO'' example_data = Some r
     \<and> Fin 0.05 < weight_equity r * cost_of_equity r + weight_debt r * cost_of_debt r
     \<and> weight_equity r * cost_of_equity r + weight_debt r * cost_of_debt r < Fin 0.25
     \<and> \<not> isnan (weight_equity r * cost_of_equity r + weight_debt r * cost_of_debt r)
     \<and> wacc r = weight_equity r * cost_of_equity r + weight_debt r * cost_of_debt r
     \<and> wacc r = Fin 0.08 \<and> Fin 0.05 \<le> wacc r \<and> wacc r \<le> Fin 0.25"
proof -
  from wacc_clamped [of source_assumptions "''ABG.JO''" example_data]
  obtain r where R: "calculate_dcf_body source_assumptions ''ABG.JO'' example_data = Some r"
    and between: "Fin 0.05 < weight_equity r * cost_of_equity r + weight_debt r * cost_of_debt r
        \<and> weight_equity r * cost_of_equity r + weight_debt r * cost_of_debt r < Fin 0.25
      \<longrightarrow> wacc r = weight_equity r * cost_of_equity r + weight_debt r * cost_of_debt r"
    and inside: "\<not> isnan (weight_equity r * cost_of_equity r + weight_debt r * cost_of_debt r)
      \<longrightarrow> Fin 0.05 \<le> wacc r \<and> wacc r \<le> Fin 0.25"
    unfolding Let_def by blast
  note c = example_capital [OF R source_assumptions_simps(1,2)]
  have pre: "weight_equity r * cost_of_equity r + weight_debt r * cost_of_debt r = Fin 0.08"
    by (simp add: c)
  from between inside have "wacc r = Fin 0.08" "Fin 0.05 \<le> wacc r" "wacc r \<le> Fin 0.25"
    by (simp_all add: pre isnan_def)
  with R pre show ?thesis
    by (intro exI [of _ r]) (simp add: isnan_def)
qed

text \<open>
  Claim C3 as stated fails: with an empty (NaN) \<^verbatim>\<open>Total Debt\<close> cell the weight of debt and
  with it the weighted cost are NaN, both comparisons of \<^verbatim>\<open>max\<close> and \<^verbatim>\<open>min\<close> are false, and
  the WACC of the result is NaN, which is not in the interval.
\<close>

theorem wacc_clamped_counterexample:
  "map_option wacc (calculate_dcf_body source_assumptions ''ABG.JO'' nan_debt_data) = Some NaN"
proof -
  obtain r where R: "calculate_dcf_body source_assumptions ''ABG.JO'' nan_debt_data = Some r"
    using body_Some by blast
  have td: "total_debt r = NaN"
    using body_inputs [OF R] by (simp add: nan_debt_data_def line_item_def)
  have tw: "total_weight r = NaN"
    by (simp add: body_total_weight [OF R] td)
  have wd: "weight_debt r = NaN"
    by (simp add: body_weight_debt [OF R] tw td zero_number_def)
  have "wacc r = NaN"
    by (simp add: body_wacc [OF R] wd clamp_NaN)
  with R show ?thesis by simp
qed

section \<open>Terminal value\<close>

text \<open>
  Claim C4. With at least one forecast year, for every snapshot \<open>d\<close> the valuation returns
  a result computed from the snapshot (the line items are those of \<open>d\<close>, FCFF and WACC are
  computed from them, the last forecast is \<open>fcff * (1 + growth_rate) ^ forecast_years\<close>),
  the terminal value is \<open>future_fcff[forecast_years] * (1 + perpetual_growth_rate) / (wacc -
  perpetual_growth_rate)\<close> when the WACC is greater than the perpetual growth rate and 0
  otherwise, its present value is the terminal value divided by \<open>(1 + wacc) ^
  forecast_years\<close>, or 0 when the terminal value is 0, and whenever the WACC is at most the
  perpetual growth rate (or the comparison is false for another reason, a WACC that is NaN)
  both the terminal value and its present value are 0. A perpetual growth rate below 0.05,
  the floor of the WACC, leaves no WACC at or below it: with the rate of the script, 0.03,
  the terminal value is 0 for a WACC that is NaN and for no other.
\<close>

theorem terminal_value_guarded:
  assumes "0 < forecast_years a"
  shows "\<exists>r. calculate_dcf_body a ticker d = Some r
     \<and> ebit r = line_item (financials d) ''EBIT''
     \<and> taxes r = line_item (financials d) ''Income Tax Expense''
     \<and> income_before_tax r = line_item (financials d) ''Pretax Income''
     \<and> depreciation r = line_item (cashflow d) ''Depreciation''
     \<and> capex r = (case cashflow d ''Capital Expenditure'' of Some v \<Rightarrow> - v | None \<Rightarrow> 0)
     \<and> working_capital_change r = line_item (cashflow d) ''Change in Working Capital''
     \<and> interest_expense r = line_item (financials d) ''Interest Expense''
     \<and> total_debt r = line_item (balance_sheet d) ''Total Debt''
     \<and> market_cap r = get (info d) ''marketCap'' 0
     \<and> beta r = get (info d) ''beta'' 1
     \<and> effective_tax_rate r =
          (if income_before_tax r \<noteq> 0 then taxes r / income_before_tax r else Fin 0.25)
     \<and> fcff r =
          (let primary = ebit r * (1 - effective_tax_rate r) + depreciation r - capex r
                           - working_capital_change r;
               net_income = (case financials d ''Net Income'' of Some v \<Rightarrow> v | None \<Rightarrow> 0)
           in if isnan primary \<or> primary \<le> 0
              then net_income + interest_expense r * (1 - effective_tax_rate r)
                     + depreciation r - capex r - working_capital_change r
              else primary)
     \<and> cost_of_debt r =
          (if total_debt r \<noteq> 0
           then interest_expense r / total_debt r * (1 - effective_tax_rate r) else 0)
     \<and> cost_of_equity r = risk_free_rate a + beta r * (market_return a - risk_free_rate a)
     \<and> total_weight r = total_debt r + market_cap r
     \<and> weight_debt r = (if total_weight r \<noteq> 0 then total_debt r / total_weight r else 0)
     \<and> weight_equity r = (if total_weight r \<noteq> 0 then market_cap r / total_weight r else 1)
     \<and> wacc r =
          py_min (py_max (weight_equity r * cost_of_equity r + weight_debt r * cost_of_debt r)
                    (Fin 0.05)) (Fin 0.25)
     \<and> future_fcff r ! (forecast_years a - 1)
          = fcff r * (1 + growth_rate a) ^ forecast_years a
     \<and> terminal_value r =
          (if wacc r > perpetual_growth_rate a
           then future_fcff r ! (forecast_years a - 1) * (1 + perpetual_growth_rate a)
                  / (wacc r - perpetual_growth_rate a)
           else 0)
     \<and> pv_terminal r =
          (if terminal_value r \<noteq> 0 then terminal_value r / (1 + wacc r) ^ forecast_years a
           else 0)
     \<and> (wacc r \<le> perpetual_growth_rate a \<longrightarrow> terminal_value r = 0 \<and> pv_terminal r = 0)
     \<and> (\<not> wacc r > perpetual_growth_rate a \<longrightarrow> terminal_value r = 0 \<and> pv_terminal r = 0)
     \<and> (perpetual_growth_rate a < Fin 0.05 \<longrightarrow> \<not> wacc r \<le> perpetual_growth_rate a)"
proof -
  obtain r where R: "calculate_dcf_body a ticker d = Some r"
    using body_Some by blast
  from assms have "1 \<le> forecast_years a \<and> forecast_years a \<le> forecast_years a" by simp
  with body_future_fcff_nth [OF R]
  have last_nth: "future_fcff r ! (forecast_years a - 1)
      = fcff r * (1 + growth_rate a) ^ forecast_years a"
    by blast
  have tv: "terminal_value r =
          (if wacc r > perpetual_growth_rate a
           then future_fcff r ! (forecast_years a - 1) * (1 + perpetual_growth_rate a)
                  / (wacc r - perpetual_growth_rate a)
           else 0)"
    using body_terminal_value [OF R] by (simp only: body_last_fcff_nth [OF R assms])
  have not_gt: "\<not> wacc r > perpetual_growth_rate a
      \<longrightarrow> terminal_value r = 0 \<and> pv_terminal r = 0"
  proof
    assume "\<not> wacc r > perpetual_growth_rate a"
    with tv have "terminal_value r = 0" by simp
    then show "terminal_value r = 0 \<and> pv_terminal r = 0"
      by (simp add: body_pv_terminal [OF R])
  qed
  have "\<not> wacc r > perpetual_growth_rate a" if "wacc r \<le> perpetual_growth_rate a"
    using that by (cases "wacc r"; cases "perpetual_growth_rate a") simp_all
  with not_gt
  have le: "wacc r \<le> perpetual_growth_rate a \<longrightarrow> terminal_value r = 0 \<and> pv_terminal r = 0"
    by blast
  have floor: "perpetual_growth_rate a < Fin 0.05 \<longrightarrow> \<not> wacc r \<le> perpetual_growth_rate a"
    by (subst body_wacc [OF R]) (simp add: clamp_above)
  show ?thesis
    by (rule exI [of _ r], intro conjI)
      (fact R body_primary_inputs [OF R] body_capital_inputs [OF R]
        body_effective_tax_rate [OF R] body_fcff_let [OF R] body_cost_of_debt [OF R]
        body_cost_of_equity [OF R] body_total_weight [OF R] body_weight_debt [OF R]
        body_weight_equity [OF R] body_wacc [OF R] last_nth tv body_pv_terminal [OF R]
        le not_gt floor)+
qed

theorem terminal_value_guarded_witness:
  "0 < forecast_years source_assumptions
   \<and> (\<exists>r. calculate_dcf_body source_assumptions ''ABG.JO'' example_data = Some r
        \<and> fcff r = Fin 650
        \<and> wacc r = Fin 0.08
        \<and> wacc r > perpetual_growth_rate source_assumptions
        \<and> future_fcff r ! 4 = Fin (650 * 1.05 ^ 5)
        \<and> terminal_value r = Fin (650 * 1.05 ^ 5 * 1.03 / 0.05)
        \<and> pv_terminal r = Fin (650 * 1.05 ^ 5 * 1.03 / 0.05 / 1.08 ^ 5))
   \<and> (\<exists>r. calculate_dcf_body source_assumptions ''ABG.JO'' nan_debt_data = Some r
        \<and> wacc r = NaN
        \<and> \<not> wacc r > perpetual_growth_rate source_assumptions
        \<and> \<not> wacc r \<le> perpetual_growth_rate source_assumptions
        \<and> terminal_value r = 0 \<and> pv_terminal r = 0)
   \<and> 0 < forecast_years (source_assumptions\<lparr>perpetual_growth_rate := Fin 0.3\<rparr>)
   \<and> (\<exists>r. calculate_dcf_body (source_assumptions\<lparr>perpetual_growth_rate := Fin 0.3\<rparr>)
             ''ABG.JO'' example_data = Some r
        \<and> fcff r = Fin 650
        \<and> wacc r = Fin 0.08
        \<and> wacc r \<le> Fin 0.3
        \<and> terminal_value r = 0 \<and> pv_terminal r = 0)"
proof (intro conjI)
  show n: "0 < forecast_years source_assumptions"
    by (simp add: source_assumptions_simps)
  from terminal_value_guarded [OF n, of "''ABG.JO''" example_data]
  obtain r where R: "calculate_dcf_body source_assumptions ''ABG.JO'' example_data = Some r"
    and inp: "ebit r = line_item (financials example_data) ''EBIT''"
      "taxes r = line_item (financials example_data) ''Income Tax Expense''"
      "income_before_tax r = line_item (financials example_data) ''Pretax Income''"
      "depreciation r = line_item (cashflow example_data) ''Depreciation''"
      "capex r = (case cashflow example_data ''Capital Expenditure'' of Some v \<Rightarrow> - v
                  | None \<Rightarrow> 0)"
      "working_capital_change r = line_item (cashflow example_data) ''Change in Working Capital''"
      "interest_expense r = line_item (financials example_data) ''Interest Expense''"
      "total_debt r = line_item (balance_sheet example_data) ''Total Debt''"
      "market_cap r = get (info example_data) ''marketCap'' 0"
      "beta r = get (info example_data) ''beta'' 1"
    and etr: "effective_tax_rate r =
          (if income_before_tax r \<noteq> 0 then taxes r / income_before_tax r else Fin 0.25)"
    and fcff: "fcff r =
          (let primary = ebit r * (1 - effective_tax_rate r) + depreciation r - capex r
                           - working_capital_change r;
               net_income = (case financials example_data ''Net Income'' of Some v \<Rightarrow> v
                             | None \<Rightarrow> 0)
           in if isnan primary \<or> primary \<le> 0
              then net_income + interest_expense r * (1 - effective_tax_rate r)
                     + depreciation r - capex r - working_capital_change r
              else primary)"
    and cd: "cost_of_debt r =
          (if total_debt r \<noteq> 0
           then interest_expense r / total_debt r * (1 - effective_tax_rate r) else 0)"
    and ce: "cost_of_equity r = risk_free_rate source_assumptions
          + beta r * (market_return source_assumptions - risk_free_rate source_assumptions)"
    and tw: "total_weight r = total_debt r + market_cap r"
    and wd: "weight_debt r = (if total_weight r \<noteq> 0 then total_debt r / total_weight r else 0)"
    and we: "weight_equity r
          = (if total_weight r \<noteq> 0 then market_cap r / total_weight r else 1)"
    and wacc: "wacc r =
          py_min (py_max (weight_equity r * cost_of_equity r + weight_debt r * cost_of_debt r)
                    (Fin 0.05)) (Fin 0.25)"
    and last: "future_fcff r ! (forecast_years source_assumptions - 1)
          = fcff r * (1 + growth_rate source_assumptions) ^ forecast_years source_assumptions"
    and tv: "terminal_value r =
          (if wacc r > perpetual_growth_rate source_assumptions
           then future_fcff r ! (forecast_years source_assumptions - 1)
                  * (1 + perpetual_growth_rate source_assumptions)
                  / (wacc r - perpetual_growth_rate source_assumptions)
           else 0)"
    and pvt: "pv_terminal r =
          (if terminal_value r \<noteq> 0
           then terminal_value r / (1 + wacc r) ^ forecast_years source_assumptions
           else 0)"
    by (elim exE conjE)
  have v: "ebit r = Fin 1000" "taxes r = Fin 250" "income_before_tax r = Fin 1000"
    "depreciation r = Fin 100" "capex r = Fin 150" "working_capital_change r = Fin 50"
    "total_debt r = Fin 0" "market_cap r = Fin 10000" "beta r = Fin 1"
    by (simp_all add: inp example_data_simps)
  have etr': "effective_tax_rate r = Fin 0.25"
    by (simp add: etr v zero_number_def)
  have fcff': "fcff r = Fin 650"
    by (simp add: fcff v etr' Let_def isnan_def zero_number_def one_number_def)
  have tw': "total_weight r = Fin 10000"
    by (simp add: tw v)
  have we': "weight_equity r = Fin 1"
    by (simp add: we tw' v zero_number_def)
  have wd': "weight_debt r = Fin 0"
    by (simp add: wd tw' v zero_number_def)
  have ce': "cost_of_equity r = Fin 0.08"
    by (simp add: ce v source_assumptions_simps)
  have cd': "cost_of_debt r = Fin 0"
    by (simp add: cd v zero_number_def)
  have wacc': "wacc r = Fin 0.08"
    by (simp add: wacc we' wd' ce' cd' clamp_Fin)
  have gt: "wacc r > perpetual_growth_rate source_assumptions"
    by (simp add: wacc' source_assumptions_simps)
  have last': "future_fcff r ! 4 = Fin (650 * 1.05 ^ 5)"
    using last by (simp add: fcff' source_assumptions_simps one_number_def power_divide)
  have tv': "terminal_value r = Fin (650 * 1.05 ^ 5 * 1.03 / 0.05)"
    using tv last'
    by (simp add: wacc' source_assumptions_simps one_number_def power_divide)
  have pvt': "pv_terminal r = Fin (650 * 1.05 ^ 5 * 1.03 / 0.05 / 1.08 ^ 5)"
    by (simp add: pvt tv' wacc' source_assumptions_simps one_number_def zero_number_def
        power_divide)
  from R fcff' wacc' gt last' tv' pvt'
  show "\<exists>r. calculate_dcf_body source_assumptions ''ABG.JO'' example_data = Some r
        \<and> fcff r = Fin 650
        \<and> wacc r = Fin 0.08
        \<and> wacc r > perpetual_growth_rate source_assumptions
        \<and> future_fcff r ! 4 = Fin (650 * 1.05 ^ 5)
        \<and> terminal_value r = Fin (650 * 1.05 ^ 5 * 1.03 / 0.05)
        \<and> pv_terminal r = Fin (650 * 1.05 ^ 5 * 1.03 / 0.05 / 1.08 ^ 5)"
    by (intro exI [of _ r] conjI)
next
  have n: "0 < forecast_years source_assumptions"
    by (simp add: source_assumptions_simps)
  from terminal_value_guarded [OF n, of "''ABG.JO''" nan_debt_data]
  obtain r where R: "calculate_dcf_body source_assumptions ''ABG.JO'' nan_debt_data = Some r"
    and td: "total_debt r = line_item (balance_sheet nan_debt_data) ''Total Debt''"
    and tw: "total_weight r = total_debt r + market_cap r"
    and wd: "weight_debt r = (if total_weight r \<noteq> 0 then total_debt r / total_weight r else 0)"
    and wacc: "wacc r =
          py_min (py_max (weight_equity r * cost_of_equity r + weight_debt r * cost_of_debt r)
                    (Fin 0.05)) (Fin 0.25)"
    and not_gt: "\<not> wacc r > perpetual_growth_rate source_assumptions
          \<longrightarrow> terminal_value r = 0 \<and> pv_terminal r = 0"
    and floor: "perpetual_growth_rate source_assumptions < Fin 0.05
          \<longrightarrow> \<not> wacc r \<le> perpetual_growth_rate source_assumptions"
    by (elim exE conjE)
  have td': "total_debt r = NaN"
    by (simp add: td nan_debt_data_def line_item_def)
  have tw': "total_weight r = NaN"
    by (simp add: tw td')
  have wd': "weight_debt r = NaN"
    by (simp add: wd tw' td' zero_number_def)
  have wacc': "wacc r = NaN"
    by (simp add: wacc wd' clamp_NaN)
  have ngt: "\<not> wacc r > perpetual_growth_rate source_assumptions"
    by (simp add: wacc')
  have nle: "\<not> wacc r \<le> perpetual_growth_rate source_assumptions"
    using floor by (simp add: source_assumptions_simps)
  from not_gt ngt have z: "terminal_value r = 0" "pv_terminal r = 0"
    by simp_all
  from R wacc' ngt nle z
  show "\<exists>r. calculate_dcf_body source_assumptions ''ABG.JO'' nan_debt_data = Some r
        \<and> wacc r = NaN
        \<and> \<not> wacc r > perpetual_growth_rate source_assumptions
        \<and> \<not> wacc r \<le> perpetual_growth_rate source_assumptions
        \<and> terminal_value r = 0 \<and> pv_terminal r = 0"
    by (intro exI [of _ r] conjI)
next
  let ?a = "source_assumptions\<lparr>perpetual_growth_rate := Fin 0.3\<rparr>"
  show n: "0 < forecast_years ?a"
    by (simp add: source_assumptions_simps)
  from terminal_value_guarded [OF n, of "''ABG.JO''" example_data]
  obtain r where R: "calculate_dcf_body ?a ''ABG.JO'' example_data = Some r"
    and inp: "ebit r = line_item (financials example_data) ''EBIT''"
      "taxes r = line_item (financials example_data) ''Income Tax Expense''"
      "income_before_tax r = line_item (financials example_data) ''Pretax Income''"
      "depreciation r = line_item (cashflow example_data) ''Depreciation''"
      "capex r = (case cashflow example_data ''Capital Expenditure'' of Some v \<Rightarrow> - v
                  | None \<Rightarrow> 0)"
      "working_capital_change r = line_item (cashflow example_data) ''Change in Working Capital''"
      "interest_expense r = line_item (financials example_data) ''Interest Expense''"
      "total_debt r = line_item (balance_sheet example_data) ''Total Debt''"
      "market_cap r = get (info example_data) ''marketCap'' 0"
      "beta r = get (info example_data) ''beta'' 1"
    and etr: "effective_tax_rate r =
          (if income_before_tax r \<noteq> 0 then taxes r / income_before_tax r else Fin 0.25)"
    and fcff: "fcff r =
          (let primary = ebit r * (1 - effective_tax_rate r) + depreciation r - capex r
                           - working_capital_change r;
               net_income = (case financials example_data ''Net Income'' of Some v \<Rightarrow> v
                             | None \<Rightarrow> 0)
           in if isnan primary \<or> primary \<le> 0
              then net_income + interest_expense r * (1 - effective_tax_rate r)
                     + depreciation r - capex r - working_capital_change r
              else primary)"
    and cd: "cost_of_debt r =
          (if total_debt r \<noteq> 0
           then interest_expense r / total_debt r * (1 - effective_tax_rate r) else 0)"
    and ce: "cost_of_equity r = risk_free_rate ?a
          + beta r * (market_return ?a - risk_free_rate ?a)"
    and tw: "total_weight r = total_debt r + market_cap r"
    and wd: "weight_debt r = (if total_weight r \<noteq> 0 then total_debt r / total_weight r else 0)"
    and we: "weight_equity r
          = (if total_weight r \<noteq> 0 then market_cap r / total_weight r else 1)"
    and wacc: "wacc r =
          py_min (py_max (weight_equity r * cost_of_equity r + weight_debt r * cost_of_debt r)
                    (Fin 0.05)) (Fin 0.25)"
    and le: "wacc r \<le> perpetual_growth_rate ?a
          \<longrightarrow> terminal_value r = 0 \<and> pv_terminal r = 0"
    by (elim exE conjE)
  have v: "ebit r = Fin 1000" "taxes r = Fin 250" "income_before_tax r = Fin 1000"
    "depreciation r = Fin 100" "capex r = Fin 150" "working_capital_change r = Fin 50"
    "total_debt r = Fin 0" "market_cap r = Fin 10000" "beta r = Fin 1"
    by (simp_all add: inp example_data_simps)
  have etr': "effective_tax_rate r = Fin 0.25"
    by (simp add: etr v zero_number_def)
  have fcff': "fcff r = Fin 650"
    by (simp add: fcff v etr' Let_def isnan_def zero_number_def one_number_def)
  have tw': "total_weight r = Fin 10000"
    by (simp add: tw v)
  have we': "weight_equity r = Fin 1"
    by (simp add: we tw' v zero_number_def)
  have wd': "weight_debt r = Fin 0"
    by (simp add: wd tw' v zero_number_def)
  have ce': "cost_of_equity r = Fin 0.08"
    by (simp add: ce v source_assumptions_simps)
  have cd': "cost_of_debt r = Fin 0"
    by (simp add: cd v zero_number_def)
  have wacc': "wacc r = Fin 0.08"
    by (simp add: wacc we' wd' ce' cd' clamp_Fin)
  have le': "wacc r \<le> Fin 0.3"
    by (simp add: wacc')
  with le have z: "terminal_value r = 0" "pv_terminal r = 0"
    by simp_all
  from R fcff' wacc' le' z
  show "\<exists>r. calculate_dcf_body ?a ''ABG.JO'' example_data = Some r
        \<and> fcff r = Fin 650
        \<and> wacc r = Fin 0.08
        \<and> wacc r \<le> Fin 0.3
        \<and> terminal_value r = 0 \<and> pv_terminal r = 0"
    by (intro exI [of _ r] conjI)
qed

section \<open>No division raises\<close>

text \<open>
  Claim C5, as amended. The valuation is total: for every input (numbers that are zero,
  rows and entries that are missing, NaN cells) and every choice of the assumptions it
  returns its locals, no division raises. Each of the divisions for the effective tax
  rate, the cost of debt, the two capital weights, the ROIC, the terminal value, the fair
  value per share, the upside and the margin of safety is guarded, and with a zero
  denominator the result is the fallback of its statement: 0.25 for the tax rate, 1 for
  the weight of equity, and 0 for the others. (The two discounting divisions have no guard
  on their denominator \<open>(1 + wacc) ^ t\<close>, which is never 0.)
\<close>

theorem valuation_total:
  "\<exists>r. calculate_dcf_body a ticker d = Some r
     \<and> (income_before_tax r = 0 \<longrightarrow> effective_tax_rate r = Fin 0.25)
     \<and> (total_debt r = 0 \<longrightarrow> cost_of_debt r = 0)
     \<and> (total_weight r = 0 \<longrightarrow> weight_debt r = 0 \<and> weight_equity r = 1)
     \<and> (invested_capital r = 0 \<longrightarrow> roic r = 0)
     \<and> (wacc r - perpetual_growth_rate a = 0 \<longrightarrow> terminal_value r = 0)
     \<and> (shares_outstanding r = 0 \<longrightarrow> fair_value_per_share r = 0)
     \<and> (current_price r = 0 \<longrightarrow> upside r = 0)
     \<and> (fair_value_per_share r = 0 \<longrightarrow> margin_of_safety_pct r = 0)"
proof -
  obtain r where R: "calculate_dcf_body a ticker d = Some r"
    using body_Some by blast
  have tax: "income_before_tax r = 0 \<longrightarrow> effective_tax_rate r = Fin 0.25"
    by (simp add: body_effective_tax_rate [OF R])
  have debt: "total_debt r = 0 \<longrightarrow> cost_of_debt r = 0"
    by (simp add: body_cost_of_debt [OF R])
  have weights: "total_weight r = 0 \<longrightarrow> weight_debt r = 0 \<and> weight_equity r = 1"
    by (simp add: body_weight_debt [OF R] body_weight_equity [OF R])
  have roic: "invested_capital r = 0 \<longrightarrow> roic r = 0"
    by (simp add: body_roic [OF R])
  have "\<not> perpetual_growth_rate a < wacc r" if "wacc r - perpetual_growth_rate a = 0"
    using that by (cases "wacc r"; cases "perpetual_growth_rate a") (simp_all add: zero_number_def)
  then have tv: "wacc r - perpetual_growth_rate a = 0 \<longrightarrow> terminal_value r = 0"
    by (simp add: body_terminal_value [OF R])
  have fv: "shares_outstanding r = 0 \<longrightarrow> fair_value_per_share r = 0"
    by (simp add: body_fair_value_per_share [OF R])
  have up: "current_price r = 0 \<longrightarrow> upside r = 0"
    by (simp add: body_upside [OF R] truthy_def)
  have mos: "fair_value_per_share r = 0 \<longrightarrow> margin_of_safety_pct r = 0"
    by (simp add: body_margin_of_safety_pct [OF R])
  from R tax debt weights roic tv fv up mos show ?thesis by blast
qed

theorem valuation_total_witness:
  "\<exists>r. calculate_dcf_body (source_assumptions\<lparr>perpetual_growth_rate := Fin 0.08\<rparr>)
           ''ADH.JO'' no_data = Some r
     \<and> income_before_tax r = 0 \<and> effective_tax_rate r = Fin 0.25
     \<and> total_debt r = 0 \<and> cost_of_debt r = 0
     \<and> total_weight r = 0 \<and> weight_debt r = 0 \<and> weight_equity r = 1
     \<and> invested_capital r = 0 \<and> roic r = 0
     \<and> wacc r - Fin 0.08 = 0 \<and> terminal_value r = 0
     \<and> shares_outstanding r = 0 \<and> fair_value_per_share r = 0
     \<and> current_price r = 0 \<and> upside r = 0
     \<and> margin_of_safety_pct r = 0"
proof -
  let ?a = "source_assumptions\<lparr>perpetual_growth_rate := Fin 0.08\<rparr>"
  from valuation_total [of ?a "''ADH.JO''" no_data]
  obtain r where R: "calculate_dcf_body ?a ''ADH.JO'' no_data = Some r"
    and tax: "income_before_tax r = 0 \<longrightarrow> effective_tax_rate r = Fin 0.25"
    and debt: "total_debt r = 0 \<longrightarrow> cost_of_debt r = 0"
    and weights: "total_weight r = 0 \<longrightarrow> weight_debt r = 0 \<and> weight_equity r = 1"
    and roic: "invested_capital r = 0 \<longrightarrow> roic r = 0"
    and tv: "wacc r - perpetual_growth_rate ?a = 0 \<longrightarrow> terminal_value r = 0"
    and fv: "shares_outstanding r = 0 \<longrightarrow> fair_value_per_share r = 0"
    and up: "current_price r = 0 \<longrightarrow> upside r = 0"
    and mos: "fair_value_per_share r = 0 \<longrightarrow> margin_of_safety_pct r = 0"
    by blast
  have inp: "income_before_tax r = 0" "total_debt r = 0" "market_cap r = 0"
    "current_assets r = 0" "current_liabilities r = 0" "net_ppe r = 0"
    "shares_outstanding r = 0" "current_price r = 0" "beta r = 1"
    using body_inputs [OF R] by (simp_all add: no_data_simps)
  have tw: "total_weight r = 0"
    by (simp add: body_total_weight [OF R] inp zero_number_def)
  have ic: "invested_capital r = 0"
    by (simp add: body_invested_capital [OF R] inp zero_number_def)
  have ce: "cost_of_equity r = Fin 0.08"
    by (simp add: body_cost_of_equity [OF R] inp source_assumptions_def one_number_def)
  from weights tw debt inp have w: "weight_debt r = 0" "weight_equity r = 1" "cost_of_debt r = 0"
    by simp_all
  have wacc: "wacc r = Fin 0.08"
    by (simp add: body_wacc [OF R] w ce clamp_Fin zero_number_def one_number_def)
  have diff: "wacc r - perpetual_growth_rate ?a = 0"
    by (simp add: wacc source_assumptions_def zero_number_def)
  then have diff': "wacc r - Fin 0.08 = 0"
    by (simp add: source_assumptions_def)
  from tax debt weights roic tv fv up mos inp tw ic diff
  have "effective_tax_rate r = Fin 0.25" "roic r = 0" "terminal_value r = 0"
    "fair_value_per_share r = 0" "upside r = 0" "margin_of_safety_pct r = 0"
    by simp_all
  with R inp tw ic w diff' show ?thesis
    by (intro exI [of _ r]) simp
qed

text \<open>
  Claim C5 as stated fails in its list of fallback values: for a ticker without any data
  the denominator \<open>total_weight\<close> is 0 and the weight of equity falls back to 1, which is
  neither 0 nor 0.25.
\<close>

theorem valuation_total_counterexample:
  "map_option total_weight (calculate_dcf_body source_assumptions ''ADH.JO'' no_data) = Some 0
   \<and> map_option weight_equity (calculate_dcf_body source_assumptions ''ADH.JO'' no_data) = Some 1
   \<and> (1 :: number) \<noteq> 0 \<and> (1 :: number) \<noteq> Fin 0.25"
proof -
  obtain r where R: "calculate_dcf_body source_assumptions ''ADH.JO'' no_data = Some r"
    using body_Some by blast
  have inp: "total_debt r = 0" "market_cap r = 0"
    using body_inputs [OF R] by (simp_all add: no_data_simps)
  have tw: "total_weight r = 0"
    by (simp add: body_total_weight [OF R] inp zero_number_def)
  have "weight_equity r = 1"
    by (simp add: body_weight_equity [OF R] tw)
  with R tw show ?thesis by (simp add: zero_number_def one_number_def)
qed

section \<open>Cost of equity\<close>

text \<open>
  Claim C9, as amended. With the assumptions of the script (risk-free rate 0.0917, market
  return 0.08) and a beta of 1, as in the example snapshot, the cost of equity, computed by
  the CAPM formula \<open>risk_free_rate + beta * (market_return - risk_free_rate)\<close>, is 0.08.
\<close>

theorem cost_of_equity_capm:
  assumes "get (info d) ''beta'' 1 = 1"
  shows "\<exists>r. calculate_dcf_body source_assumptions ticker d = Some r
     \<and> cost_of_equity r =
          risk_free_rate source_assumptions
            + beta r * (market_return source_assumptions - risk_free_rate source_assumptions)
     \<and> cost_of_equity r = Fin 0.08"
proof -
  obtain r where R: "calculate_dcf_body source_assumptions ticker d = Some r"
    using body_Some by blast
  from assms have b: "beta r = Fin 1"
    using body_inputs [OF R] by (simp add: one_number_def)
  have "cost_of_equity r = Fin 0.08"
    by (simp add: body_cost_of_equity [OF R] b source_assumptions_simps)
  with R body_cost_of_equity [OF R] show ?thesis by blast
qed

theorem cost_of_equity_capm_witness:
  "get (info example_data) ''beta'' 1 = 1
   \<and> (\<exists>r. calculate_dcf_body source_assumptions ''ABG.JO'' example_data = Some r
        \<and> total_debt r = Fin 0 \<and> market_cap r = Fin 10000 \<and> beta r = Fin 1
        \<and> cost_of_equity r = Fin 0.0917 + Fin 1 * (Fin 0.08 - Fin 0.0917)
        \<and> cost_of_equity r = Fin 0.08)"
proof -
  have b: "get (info example_data) ''beta'' 1 = 1"
    using example_data_simps(16) by (simp add: one_number_def)
  from cost_of_equity_capm [OF b, of "''ABG.JO''"]
  obtain r where R: "calculate_dcf_body source_assumptions ''ABG.JO'' example_data = Some r"
    and ce: "cost_of_equity r = Fin 0.08"
    by blast
  have "total_debt r = Fin 0" "market_cap r = Fin 10000" "beta r = Fin 1"
    using body_inputs [OF R] by (simp_all add: example_data_simps)
  with b R ce show ?thesis
    by (intro conjI exI [of _ r]) simp_all
qed

text \<open>
  Claim C9 as stated fails: for the example snapshot the cost of equity is not 0.0917.
\<close>

theorem cost_of_equity_capm_counterexample:
  "map_option cost_of_equity (calculate_dcf_body source_assumptions ''ABG.JO'' example_data)
     \<noteq> Some (Fin 0.0917)"
proof -
  obtain r where R: "calculate_dcf_body source_assumptions ''ABG.JO'' example_data = Some r"
    using body_Some by blast
  have "cost_of_equity r = Fin 0.08"
    by (rule example_capital(3) [OF R]) (simp_all add: source_assumptions_simps)
  with R show ?thesis by simp
qed

section \<open>Verdict without a price\<close>

lemma example_fair_value:
  assumes R: "calculate_dcf_body source_assumptions ticker example_data = Some r"
  shows "fair_value_per_share r = Fin (245555765 / 1679616)"
proof -
  note c = example_capital [OF R source_assumptions_simps(1,2)]
  have inp: "ebit r = Fin 1000" "taxes r = Fin 250" "income_before_tax r = Fin 1000"
    "depreciation r = Fin 100" "capex r = Fin 150" "working_capital_change r = Fin 50"
    "total_debt r = Fin 0" "cash_equivalents r = 0" "shares_outstanding r = Fin 100"
    using body_inputs [OF R] by (simp_all add: example_data_simps)
  have etr: "effective_tax_rate r = Fin 0.25"
    by (simp add: body_effective_tax_rate [OF R] inp zero_number_def)
  have fcff: "fcff r = Fin 650"
    by (simp add: body_fcff [OF R] inp etr isnan_def zero_number_def one_number_def)
  have range: "py_range 1 (forecast_years source_assumptions + 1) = [1, 2, 3, 4, 5]"
    unfolding py_range_def source_assumptions_simps by code_simp
  have ff: "future_fcff r
      = [Fin (650 * 1.05), Fin (650 * 1.05 ^ 2), Fin (650 * 1.05 ^ 3), Fin (650 * 1.05 ^ 4),
         Fin (650 * 1.05 ^ 5)]"
    by (simp only: body_future_fcff [OF R] range)
      (simp add: fcff source_assumptions_simps one_number_def power_divide)
  have last: "last_fcff r = Fin (650 * 1.05 ^ 5)"
    by (simp add: body_last_fcff [OF R] ff power_divide)
  have tv: "terminal_value r = Fin (650 * 1.05 ^ 5 * 1.03 / 0.05)"
    by (simp add: body_terminal_value [OF R] last c source_assumptions_simps one_number_def
        power_divide)
  have pvt: "pv_terminal r = Fin (650 * 1.05 ^ 5 * 1.03 / 0.05 / 1.08 ^ 5)"
    by (simp add: body_pv_terminal [OF R] tv c source_assumptions_simps one_number_def
        zero_number_def power_divide)
  have pv: "pv_fcff r
      = [Fin (650 * 1.05 / 1.08), Fin (650 * 1.05 ^ 2 / 1.08 ^ 2),
         Fin (650 * 1.05 ^ 3 / 1.08 ^ 3), Fin (650 * 1.05 ^ 4 / 1.08 ^ 4),
         Fin (650 * 1.05 ^ 5 / 1.08 ^ 5)]"
    by (simp add: body_pv_fcff [OF R] ff c enumerate_simps one_number_def power_divide)
  have tot: "total_pv r = Fin (245555765 / 16796.16)"
    by (simp add: body_total_pv [OF R] pv pvt py_sum_def zero_number_def power_divide)
  have mev: "market_equity_value r = Fin (245555765 / 16796.16)"
    by (simp add: body_market_equity_value [OF R] tot inp zero_number_def)
  show ?thesis
    by (simp add: body_fair_value_per_share [OF R] mev inp zero_number_def)
qed

text \<open>
  Claim C10. For every input whose current price is 0, which is also the value taken when
  \<^verbatim>\<open>currentPrice\<close> is missing, the valuation returns with an upside of 0 and the verdict
  \<^verbatim>\<open>Overvalued\<close>, whatever the fair value per share is.
\<close>

theorem zero_price_overvalued:
  assumes "get (info d) ''currentPrice'' 0 = 0"
  shows "\<exists>r. calculate_dcf_body a ticker d = Some r
     \<and> current_price r = 0 \<and> upside r = 0 \<and> valuation r = ''Overvalued''"
proof -
  obtain r where R: "calculate_dcf_body a ticker d = Some r"
    using body_Some by blast
  from assms have cp: "current_price r = 0"
    using body_inputs [OF R] by simp
  then have up: "upside r = 0"
    by (simp add: body_upside [OF R] truthy_def)
  then have "valuation r = ''Overvalued''"
    by (simp add: body_valuation [OF R] zero_number_def)
  with R cp up show ?thesis by blast
qed

theorem zero_price_overvalued_witness:
  "get (info example_data) ''currentPrice'' 0 = 0
   \<and> (\<exists>r. calculate_dcf_body source_assumptions ''ABG.JO'' example_data = Some r
        \<and> 0 < fair_value_per_share r
        \<and> current_price r = 0 \<and> upside r = 0 \<and> valuation r = ''Overvalued'')"
proof -
  have cp: "get (info example_data) ''currentPrice'' 0 = 0"
    by (simp add: example_data_simps)
  from zero_price_overvalued [OF cp, of source_assumptions "''ABG.JO''"]
  obtain r where R: "calculate_dcf_body source_assumptions ''ABG.JO'' example_data = Some r"
    and v: "current_price r = 0" "upside r = 0" "valuation r = ''Overvalued''"
    by blast
  have "0 < fair_value_per_share r"
    by (simp add: example_fair_value [OF R] zero_number_def)
  with cp R v show ?thesis by blast
qed

section \<open>One call of the worker\<close>

lemma safe_calculate_dcf_error:
  assumes "yf t = Inl e"
  shows "safe_calculate_dcf yf t w
           = (Some (''Error fetching data or calculating DCF for '' @ t @ '': '' @ e), w)"
  by (simp add: safe_calculate_dcf_def calculate_dcf_def assms)

lemma safe_calculate_dcf_success:
  assumes "yf t = Inr d" "calculate_dcf_body source_assumptions t d = Some l"
  shows "safe_calculate_dcf yf t w
           = (None, w\<lparr>dcf_reports := (dcf_reports w)(dcf_output_folder @ ''/'' @ t @ ''_dcf.txt'' \<mapsto> l),
                       financial_data_records := financial_data_records w @ [(t, l)]\<rparr>)"
  by (simp add: safe_calculate_dcf_def calculate_dcf_def assms Let_def)

lemma safe_calculate_dcf_cases:
  obtains (error) e where "yf t = Inl e"
  | (success) d l where "yf t = Inr d" "calculate_dcf_body source_assumptions t d = Some l"
proof (cases "yf t")
  case (Inl e)
  then show ?thesis by (rule error)
next
  case (Inr d)
  moreover obtain l where "calculate_dcf_body source_assumptions t d = Some l"
    using body_Some by blast
  ultimately show ?thesis by (rule success)
qed

text \<open>What a call returns does not depend on the shared state it finds.\<close>

lemma safe_result_indep: "fst (safe_calculate_dcf yf t w) = fst (safe_calculate_dcf yf t w')"
  by (cases rule: safe_calculate_dcf_cases [of yf t])
    (simp_all add: safe_calculate_dcf_error safe_calculate_dcf_success)

text \<open>A call appends to the list what it would append to the empty list.\<close>

lemma safe_records:
  "financial_data_records (snd (safe_calculate_dcf yf t w))
     = financial_data_records w
         @ financial_data_records (snd (safe_calculate_dcf yf t initial_world))"
  by (cases rule: safe_calculate_dcf_cases [of yf t])
    (simp_all add: safe_calculate_dcf_error safe_calculate_dcf_success initial_world_def)

section \<open>The pool\<close>

lemma those_map_Some:
  "(\<And>x. x \<in> set xs \<Longrightarrow> f x = Some (g x)) \<Longrightarrow> those (map f xs) = Some (map g xs)"
  by (induction xs) simp_all

lemma those_map_None: "x \<in> set xs \<Longrightarrow> f x = None \<Longrightarrow> those (map f xs) = None"
  by (induction xs) (auto split: option.splits)

lemma run_tasks_slots:
  "fst (run_tasks (safe_calculate_dcf yf) ts sched (slots, w)) i
     = (if i \<in> set sched \<and> i < length ts
        then Some (fst (safe_calculate_dcf yf (ts ! i) w0)) else slots i)"
proof (induction sched arbitrary: slots w)
  case Nil
  show ?case by simp
next
  case (Cons j sched)
  show ?case
  proof (cases "j < length ts")
    case False
    then show ?thesis by (auto simp: Cons)
  next
    case True
    obtain res w' where f: "safe_calculate_dcf yf (ts ! j) w = (res, w')"
      by (cases "safe_calculate_dcf yf (ts ! j) w")
    have "res = fst (safe_calculate_dcf yf (ts ! j) w)" by (simp add: f)
    then have res: "res = fst (safe_calculate_dcf yf (ts ! j) w0)"
      by (simp only: safe_result_indep [of yf "ts ! j" w w0])
    from True f res show ?thesis by (auto simp: Cons)
  qed
qed

lemma run_tasks_records:
  "financial_data_records (snd (run_tasks (safe_calculate_dcf yf) ts sched (slots, w)))
     = financial_data_records w
         @ concat (map (\<lambda>i. financial_data_records
                               (snd (safe_calculate_dcf yf (ts ! i) initial_world)))
                     (filter (\<lambda>i. i < length ts) sched))"
proof (induction sched arbitrary: slots w)
  case Nil
  show ?case by simp
next
  case (Cons j sched)
  show ?case
  proof (cases "j < length ts")
    case False
    then show ?thesis by (simp add: Cons)
  next
    case True
    obtain res w' where f: "safe_calculate_dcf yf (ts ! j) w = (res, w')"
      by (cases "safe_calculate_dcf yf (ts ! j) w")
    have "financial_data_records w'
        = financial_data_records w
            @ financial_data_records (snd (safe_calculate_dcf yf (ts ! j) initial_world))"
      using safe_records [of yf "ts ! j" w] by (simp add: f)
    with True f show ?thesis by (simp add: Cons)
  qed
qed

lemma executor_map_results:
  "fst (executor_map (safe_calculate_dcf yf) ts sched w)
     = (if {..<length ts} \<subseteq> set sched
        then Some (map (\<lambda>t. fst (safe_calculate_dcf yf t w)) ts) else None)"
proof -
  obtain slots w' where run: "run_tasks (safe_calculate_dcf yf) ts sched (Map.empty, w) = (slots, w')"
    by (cases "run_tasks (safe_calculate_dcf yf) ts sched (Map.empty, w)")
  have slots: "slots i = (if i \<in> set sched \<and> i < length ts
        then Some (fst (safe_calculate_dcf yf (ts ! i) w)) else None)" for i
    using run_tasks_slots [of yf ts sched Map.empty w i w] by (simp add: run)
  have res: "fst (executor_map (safe_calculate_dcf yf) ts sched w)
      = those (map slots [0..<length ts])"
    by (simp add: executor_map_def run)
  show ?thesis
  proof (cases "{..<length ts} \<subseteq> set sched")
    case True
    then have "slots i = Some (fst (safe_calculate_dcf yf (ts ! i) w))"
      if "i \<in> set [0..<length ts]" for i
      using that by (auto simp: slots)
    then have "those (map slots [0..<length ts])
        = Some (map (\<lambda>i. fst (safe_calculate_dcf yf (ts ! i) w)) [0..<length ts])"
      by (rule those_map_Some)
    also have "map (\<lambda>i. fst (safe_calculate_dcf yf (ts ! i) w)) [0..<length ts]
        = map (\<lambda>t. fst (safe_calculate_dcf yf t w)) ts"
      by (rule nth_equalityI) simp_all
    finally show ?thesis using True by (simp add: res)
  next
    case False
    then obtain i where i: "i < length ts" "i \<notin> set sched" by auto
    then have "i \<in> set [0..<length ts]" "slots i = None" by (simp_all add: slots)
    then have "those (map slots [0..<length ts]) = None" by (rule those_map_None)
    with False show ?thesis by (simp add: res)
  qed
qed

lemma executor_map_records:
  "financial_data_records (snd (executor_map (safe_calculate_dcf yf) ts sched w))
     = financial_data_records w
         @ concat (map (\<lambda>i. financial_data_records
                               (snd (safe_calculate_dcf yf (ts ! i) initial_world)))
                     (filter (\<lambda>i. i < length ts) sched))"
proof -
  obtain slots w' where run: "run_tasks (safe_calculate_dcf yf) ts sched (Map.empty, w) = (slots, w')"
    by (cases "run_tasks (safe_calculate_dcf yf) ts sched (Map.empty, w)")
  with run_tasks_records [of yf ts sched Map.empty w] show ?thesis
    by (simp add: executor_map_def)
qed

lemma list3: "length xs = 3 \<Longrightarrow> xs = [xs ! 0, xs ! 1, xs ! 2]"
  by (auto simp: length_Suc_conv numeral_3_eq_3)

lemma list2: "length xs = 2 \<Longrightarrow> xs = [xs ! 0, xs ! 1]"
  by (auto simp: length_Suc_conv numeral_2_eq_2)

lemma example_provider_simps:
  "example_provider ''ABG.JO'' = Inr example_data"
  "example_provider ''ADH.JO'' = Inr no_data"
  "example_provider ''XXX.JO'' = Inl ''No data found, symbol may be delisted''"
  by (simp_all add: example_provider_def)

section \<open>Order of the returned values\<close>

text \<open>
  Claim C6. For every list of tickers and every schedule in which each position is
  processed, the batch returns a list with exactly one value per ticker, and the value at
  position \<open>i\<close> is the one the worker returns for the ticker at position \<open>i\<close>, in whatever
  order the calls completed; as long as some position has not been processed there is no
  list of results.
\<close>

theorem results_in_input_order:
  "({..<length ts} \<subseteq> set sched \<longrightarrow>
      (\<exists>rs. fst (executor_map (safe_calculate_dcf yf) ts sched w) = Some rs
         \<and> length rs = length ts
         \<and> (\<forall>i<length ts. rs ! i = fst (safe_calculate_dcf yf (ts ! i) w))))
   \<and> (\<not> {..<length ts} \<subseteq> set sched \<longrightarrow>
        fst (executor_map (safe_calculate_dcf yf) ts sched w) = None)"
  by (simp add: executor_map_results)

theorem results_in_input_order_witness:
  "{..<length [''ABG.JO'', ''XXX.JO'', ''ADH.JO'']} \<subseteq> set [2, 0, 1 :: nat]
   \<and> fst (run_script example_provider [''ABG.JO'', ''XXX.JO'', ''ADH.JO''] [2, 0, 1])
       = Some [None,
               Some (''Error fetching data or calculating DCF for XXX.JO: ''
                       @ ''No data found, symbol may be delisted''),
               None]
   \<and> \<not> {..<length [''ABG.JO'', ''XXX.JO'', ''ADH.JO'']} \<subseteq> set [2, 0 :: nat]
   \<and> fst (run_script example_provider [''ABG.JO'', ''XXX.JO'', ''ADH.JO''] [2, 0]) = None"
proof -
  let ?ts = "[''ABG.JO'', ''XXX.JO'', ''ADH.JO'']"
  let ?F = "safe_calculate_dcf example_provider"
  have all: "{..<length ?ts} \<subseteq> set [2, 0, 1 :: nat]"
    by (auto simp: less_Suc_eq)
  have part: "\<not> {..<length ?ts} \<subseteq> set [2, 0 :: nat]"
    by (auto simp: subset_iff intro: exI [of _ 1])
  obtain l1 where l1: "calculate_dcf_body source_assumptions ''ABG.JO'' example_data = Some l1"
    using body_Some by blast
  obtain l3 where l3: "calculate_dcf_body source_assumptions ''ADH.JO'' no_data = Some l3"
    using body_Some by blast
  have r: "fst (?F ''ABG.JO'' initial_world) = None"
    "fst (?F ''XXX.JO'' initial_world)
       = Some (''Error fetching data or calculating DCF for XXX.JO: ''
                 @ ''No data found, symbol may be delisted'')"
    "fst (?F ''ADH.JO'' initial_world) = None"
    by (simp_all add:
        safe_calculate_dcf_success [of example_provider "''ABG.JO''" example_data l1,
          OF example_provider_simps(1) l1]
        safe_calculate_dcf_success [of example_provider "''ADH.JO''" no_data l3,
          OF example_provider_simps(2) l3]
        safe_calculate_dcf_error [of example_provider "''XXX.JO''", OF example_provider_simps(3)])
  from results_in_input_order [of ?ts "[2, 0, 1]" example_provider initial_world] all
  obtain rs where rs: "fst (executor_map ?F ?ts [2, 0, 1] initial_world) = Some rs"
    "length rs = length ?ts" "\<forall>i<length ?ts. rs ! i = fst (?F (?ts ! i) initial_world)"
    by blast
  from rs(3) have "rs ! 0 = fst (?F ''ABG.JO'' initial_world)"
    "rs ! 1 = fst (?F ''XXX.JO'' initial_world)" "rs ! 2 = fst (?F ''ADH.JO'' initial_world)"
    by simp_all
  moreover from rs(2) have "rs = [rs ! 0, rs ! 1, rs ! 2]"
    by (intro list3) simp
  ultimately have "rs = [None,
               Some (''Error fetching data or calculating DCF for XXX.JO: ''
                       @ ''No data found, symbol may be delisted''), None]"
    using r by simp
  with rs(1) have full: "fst (run_script example_provider ?ts [2, 0, 1])
       = Some [None,
               Some (''Error fetching data or calculating DCF for XXX.JO: ''
                       @ ''No data found, symbol may be delisted''), None]"
    by (simp add: run_script_def)
  from results_in_input_order [of ?ts "[2, 0]" example_provider initial_world] part
  have "fst (run_script example_provider ?ts [2, 0]) = None"
    unfolding run_script_def by blast
  with all part full show ?thesis by blast
qed

section \<open>Failures stay with their ticker\<close>

lemma example_rows:
  assumes "calculate_dcf_body source_assumptions ''ABG.JO'' example_data = Some l1"
    and "calculate_dcf_body source_assumptions ''ADH.JO'' no_data = Some l2"
  shows "safe_calculate_dcf example_provider ''ABG.JO'' w
           = (None, w\<lparr>dcf_reports := (dcf_reports w)(dcf_output_folder @ ''/'' @ ''ABG.JO'' @ ''_dcf.txt'' \<mapsto> l1),
                       financial_data_records := financial_data_records w @ [(''ABG.JO'', l1)]\<rparr>)"
    and "safe_calculate_dcf example_provider ''ADH.JO'' w
           = (None, w\<lparr>dcf_reports := (dcf_reports w)(dcf_output_folder @ ''/'' @ ''ADH.JO'' @ ''_dcf.txt'' \<mapsto> l2),
                       financial_data_records := financial_data_records w @ [(''ADH.JO'', l2)]\<rparr>)"
    and "safe_calculate_dcf example_provider ''XXX.JO'' w
           = (Some (''Error fetching data or calculating DCF for '' @ ''XXX.JO'' @ '': ''
                      @ ''No data found, symbol may be delisted''), w)"
  using safe_calculate_dcf_success [of example_provider "''ABG.JO''" example_data l1 w]
    safe_calculate_dcf_success [of example_provider "''ADH.JO''" no_data l2 w]
    safe_calculate_dcf_error [of example_provider "''XXX.JO''" _ w]
    assms example_provider_simps
  by simp_all

lemma first_cells_single: "first_cells (\<lambda>label. map_option (\<lambda>v. [v]) (df label)) = df"
  by (rule ext) (simp add: first_cells_def split: option.split)

lemma no_column_single: "no_column (\<lambda>label. map_option (\<lambda>v. [v]) (df label)) label = False"
  by (simp add: no_column_def)

lemma numbers_raw_numbers: "numbers (raw_numbers d) = d"
  by (simp add: numbers_def raw_numbers_def first_cells_single)

lemma numbers_none_entries: "numbers (raw\<lparr>none_entries := ks\<rparr>) = numbers raw"
  by (simp add: numbers_def)

lemma normalize_error_raw_numbers:
  "normalize_error ((raw_numbers d)\<lparr>none_entries := ks\<rparr>)
     = (if LongBusinessSummary \<in> ks then Some not_subscriptable else None)"
  by (simp add: normalize_error_def raw_numbers_def no_column_single)

lemma evaluate_error_raw_numbers:
  "evaluate_error ((raw_numbers d)\<lparr>none_entries := ks\<rparr>)
     = (if Beta \<in> ks then Some unsupported_mul else None)"
  by (simp add: evaluate_error_def raw_numbers_def no_column_single)

text \<open>The test of the fallback is the one the valuation makes.\<close>

lemma body_fallback_branch:
  assumes R: "calculate_dcf_body a ticker d = Some r"
  shows "fallback_branch d
     = (isnan (ebit r * (1 - effective_tax_rate r) + depreciation r - capex r
                - working_capital_change r)
        \<or> ebit r * (1 - effective_tax_rate r) + depreciation r - capex r
                - working_capital_change r \<le> 0)"
  by (simp add: fallback_branch_def Let_def truthy_def body_primary_inputs [OF R]
      body_effective_tax_rate [OF R])

lemma attempt_error: "attempt env t = Inl (s, e) \<Longrightarrow> provider_of env t = Inl e"
  by (simp add: provider_of_def)

lemma attempt_data: "attempt env t = Inr d \<Longrightarrow> provider_of env t = Inr d"
  by (simp add: provider_of_def)

lemma attempt_stages:
  "fetch env t = Inl e \<Longrightarrow> attempt env t = Inl (Fetch, e)"
  "fetch env t = Inr raw \<Longrightarrow> normalize_error raw = Some e \<Longrightarrow> attempt env t = Inl (Normalize, e)"
  "fetch env t = Inr raw \<Longrightarrow> normalize_error raw = None \<Longrightarrow> evaluate_error raw = Some e
     \<Longrightarrow> attempt env t = Inl (Evaluate, e)"
  "fetch env t = Inr raw \<Longrightarrow> normalize_error raw = None \<Longrightarrow> evaluate_error raw = None
     \<Longrightarrow> open_error env (dcf_output_folder @ ''/'' @ t @ ''_dcf.txt'') = Some e
     \<Longrightarrow> attempt env t = Inl (Report, e)"
  "fetch env t = Inr raw \<Longrightarrow> normalize_error raw = None \<Longrightarrow> evaluate_error raw = None
     \<Longrightarrow> open_error env (dcf_output_folder @ ''/'' @ t @ ''_dcf.txt'') = None
     \<Longrightarrow> attempt env t = Inr (numbers raw)"
  by (simp_all add: attempt_def)

lemma example_fetch:
  "fetch example_environment ''ABG.JO'' = Inr (raw_numbers example_data)"
  "fetch example_environment ''XXX.JO'' = Inl ''No data found, symbol may be delisted''"
  "fetch example_environment ''ADH.JO''
     = Inr ((raw_numbers no_data)\<lparr>raw_financials := [''EBIT'' \<mapsto> []]\<rparr>)"
  "fetch example_environment ''AEL.JO'' = Inr ((raw_numbers example_data)\<lparr>none_entries := {Beta}\<rparr>)"
  "fetch example_environment ''AFE.JO''
     = Inr ((raw_numbers no_data)\<lparr>raw_financials :=
              [''EBIT'' \<mapsto> [Fin (- 100)], ''Net Income'' \<mapsto> []]\<rparr>)"
  "fetch example_environment ''AFH.JO''
     = Inr ((raw_numbers example_data)\<lparr>none_entries := {LongBusinessSummary}\<rparr>)"
  "open_error example_environment path = None"
  by (simp_all add: example_environment_def)

lemma example_errors:
  "normalize_error (raw_numbers example_data) = None"
  "evaluate_error (raw_numbers example_data) = None"
  "normalize_error ((raw_numbers no_data)\<lparr>raw_financials := [''EBIT'' \<mapsto> []]\<rparr>)
     = Some out_of_bounds"
  "normalize_error ((raw_numbers example_data)\<lparr>none_entries := {Beta}\<rparr>) = None"
  "evaluate_error ((raw_numbers example_data)\<lparr>none_entries := {Beta}\<rparr>) = Some unsupported_mul"
  "normalize_error ((raw_numbers example_data)\<lparr>none_entries := {LongBusinessSummary}\<rparr>)
     = Some not_subscriptable"
  by (simp_all add: normalize_error_def evaluate_error_def raw_numbers_def no_column_single)
    (simp add: no_column_def)

lemma example_loss_errors:
  "normalize_error ((raw_numbers no_data)\<lparr>raw_financials :=
       [''EBIT'' \<mapsto> [Fin (- 100)], ''Net Income'' \<mapsto> []]\<rparr>) = None"
  "fallback_branch (numbers ((raw_numbers no_data)\<lparr>raw_financials :=
       [''EBIT'' \<mapsto> [Fin (- 100)], ''Net Income'' \<mapsto> []]\<rparr>))"
  "evaluate_error ((raw_numbers no_data)\<lparr>raw_financials :=
       [''EBIT'' \<mapsto> [Fin (- 100)], ''Net Income'' \<mapsto> []]\<rparr>) = Some out_of_bounds"
proof -
  let ?raw = "(raw_numbers no_data)\<lparr>raw_financials :=
       [''EBIT'' \<mapsto> [Fin (- 100)], ''Net Income'' \<mapsto> []]\<rparr>"
  show "normalize_error ?raw = None"
    by (simp add: normalize_error_def no_column_def raw_numbers_def no_data_def)
  show fb: "fallback_branch (numbers ?raw)"
    by (simp add: fallback_branch_def numbers_def raw_numbers_def no_data_def first_cells_def
        line_item_def truthy_def isnan_def zero_number_def one_number_def)
  show "evaluate_error ?raw = Some out_of_bounds"
    unfolding evaluate_error_def using fb by (simp add: no_column_def)
qed

lemma example_attempts:
  "attempt example_environment ''ABG.JO'' = Inr example_data"
  "attempt example_environment ''XXX.JO'' = Inl (Fetch, ''No data found, symbol may be delisted'')"
  "attempt example_environment ''ADH.JO'' = Inl (Normalize, out_of_bounds)"
  "attempt example_environment ''AEL.JO'' = Inl (Evaluate, unsupported_mul)"
  "attempt example_environment ''AFE.JO'' = Inl (Evaluate, out_of_bounds)"
  "attempt example_environment ''AFH.JO'' = Inl (Normalize, not_subscriptable)"
  by (simp_all add: attempt_def example_fetch example_errors example_loss_errors
      numbers_raw_numbers)

text \<open>
  Claim C7. In a batch in which every position is processed, a ticker that fails at the
  fetch (a call to yfinance raises), while the line items are pulled (a value of \<^verbatim>\<open>None\<close>
  is sliced, or a row has no cell) or in the valuation (a row without a cell is read in
  the fallback branch, or a beta of \<^verbatim>\<open>None\<close> is multiplied) gets as its outcome the error
  string with its name and the message of the exception; the batch still returns its
  list of results, with one outcome per ticker; every ticker whose data can be used and
  whose report can be opened has the outcome of a successful call, the value \<^verbatim>\<open>None\<close>, and
  its row, computed from its data, in \<^verbatim>\<open>financial_data_records\<close>; and every other ticker
  that fails, at whatever stage, has its own error string.
\<close>

theorem failure_is_isolated:
  assumes "{..<length ts} \<subseteq> set sched" and "i < length ts"
    and "fetch env (ts ! i) = Inl e
       \<or> (\<exists>raw. fetch env (ts ! i) = Inr raw \<and> normalize_error raw = Some e)
       \<or> (\<exists>raw. fetch env (ts ! i) = Inr raw \<and> normalize_error raw = None
                \<and> evaluate_error raw = Some e)"
  shows "\<exists>rs. fst (executor_map (safe_calculate_dcf (provider_of env)) ts sched w) = Some rs
     \<and> length rs = length ts
     \<and> rs ! i = Some (''Error fetching data or calculating DCF for '' @ ts ! i @ '': '' @ e)
     \<and> (\<forall>j<length ts. \<forall>raw.
          fetch env (ts ! j) = Inr raw \<and> normalize_error raw = None
            \<and> evaluate_error raw = None
            \<and> open_error env (dcf_output_folder @ ''/'' @ ts ! j @ ''_dcf.txt'') = None \<longrightarrow>
          rs ! j = None
          \<and> (\<exists>l. calculate_dcf_body source_assumptions (ts ! j) (numbers raw) = Some l
                \<and> (ts ! j, l) \<in> set (financial_data_records
                      (snd (executor_map (safe_calculate_dcf (provider_of env)) ts sched w)))))
     \<and> (\<forall>j<length ts. \<forall>s' e'. attempt env (ts ! j) = Inl (s', e') \<longrightarrow>
          rs ! j
            = Some (''Error fetching data or calculating DCF for '' @ ts ! j @ '': '' @ e'))"
proof -
  let ?F = "safe_calculate_dcf (provider_of env)"
  let ?rs = "map (\<lambda>t. fst (?F t w)) ts"
  from assms(1) have rs: "fst (executor_map ?F ts sched w) = Some ?rs"
    by (simp add: executor_map_results)
  from assms(3) obtain s where "attempt env (ts ! i) = Inl (s, e)"
    using attempt_stages(1-3) by blast
  then have "provider_of env (ts ! i) = Inl e"
    by (rule attempt_error)
  with assms(2) have err:
    "?rs ! i = Some (''Error fetching data or calculating DCF for '' @ ts ! i @ '': '' @ e)"
    by (simp add: safe_calculate_dcf_error)
  have ok: "\<forall>j<length ts. \<forall>raw.
          fetch env (ts ! j) = Inr raw \<and> normalize_error raw = None
            \<and> evaluate_error raw = None
            \<and> open_error env (dcf_output_folder @ ''/'' @ ts ! j @ ''_dcf.txt'') = None \<longrightarrow>
          ?rs ! j = None
          \<and> (\<exists>l. calculate_dcf_body source_assumptions (ts ! j) (numbers raw) = Some l
                \<and> (ts ! j, l) \<in> set (financial_data_records
                      (snd (executor_map ?F ts sched w))))"
  proof (intro allI impI, elim conjE)
    fix j raw
    assume j: "j < length ts" and raw: "fetch env (ts ! j) = Inr raw"
      "normalize_error raw = None" "evaluate_error raw = None"
      "open_error env (dcf_output_folder @ ''/'' @ ts ! j @ ''_dcf.txt'') = None"
    from raw have "attempt env (ts ! j) = Inr (numbers raw)"
      by (rule attempt_stages(5))
    then have d: "provider_of env (ts ! j) = Inr (numbers raw)"
      by (rule attempt_data)
    obtain l where l: "calculate_dcf_body source_assumptions (ts ! j) (numbers raw) = Some l"
      using body_Some by blast
    note s = safe_calculate_dcf_success [of "provider_of env" "ts ! j" "numbers raw" l, OF d l]
    from j have none: "?rs ! j = None" by (simp add: s)
    from j assms(1) have "j \<in> set (filter (\<lambda>i. i < length ts) sched)" by auto
    moreover have "(ts ! j, l) \<in> set (financial_data_records (snd (?F (ts ! j) initial_world)))"
      by (simp add: s)
    ultimately have "(ts ! j, l) \<in> set (financial_data_records (snd (executor_map ?F ts sched w)))"
      unfolding executor_map_records by auto
    with none l
    show "?rs ! j = None
      \<and> (\<exists>l. calculate_dcf_body source_assumptions (ts ! j) (numbers raw) = Some l
            \<and> (ts ! j, l) \<in> set (financial_data_records (snd (executor_map ?F ts sched w))))"
      by blast
  qed
  have others: "\<forall>j<length ts. \<forall>s' e'. attempt env (ts ! j) = Inl (s', e') \<longrightarrow>
      ?rs ! j = Some (''Error fetching data or calculating DCF for '' @ ts ! j @ '': '' @ e')"
    by (simp add: attempt_error safe_calculate_dcf_error)
  show ?thesis
    by (rule exI [of _ ?rs], intro conjI) (fact rs err ok others | simp)+
qed

theorem failure_is_isolated_witness:
  "{..<length [''ABG.JO'', ''XXX.JO'', ''ADH.JO'', ''AEL.JO'', ''AFE.JO'', ''AFH.JO'']}
     \<subseteq> set [2, 0, 5, 1, 4, 3 :: nat]
   \<and> fetch example_environment ''XXX.JO'' = Inl ''No data found, symbol may be delisted''
   \<and> (\<exists>raw. fetch example_environment ''ADH.JO'' = Inr raw
         \<and> normalize_error raw = Some out_of_bounds)
   \<and> (\<exists>raw. fetch example_environment ''AFH.JO'' = Inr raw
         \<and> normalize_error raw = Some not_subscriptable)
   \<and> (\<exists>raw. fetch example_environment ''AEL.JO'' = Inr raw \<and> normalize_error raw = None
         \<and> evaluate_error raw = Some unsupported_mul)
   \<and> (\<exists>raw. fetch example_environment ''AFE.JO'' = Inr raw \<and> normalize_error raw = None
         \<and> evaluate_error raw = Some out_of_bounds)
   \<and> (\<exists>rs. fst (run_script (provider_of example_environment)
                  [''ABG.JO'', ''XXX.JO'', ''ADH.JO'', ''AEL.JO'', ''AFE.JO'', ''AFH.JO'']
                  [2, 0, 5, 1, 4, 3])
             = Some rs
        \<and> length rs = 6
        \<and> rs ! 0 = None
        \<and> rs ! 1 = Some (''Error fetching data or calculating DCF for XXX.JO: ''
                           @ ''No data found, symbol may be delisted'')
        \<and> rs ! 2 = Some (''Error fetching data or calculating DCF for ADH.JO: ''
                           @ ''single positional indexer is out-of-bounds'')
        \<and> rs ! 3 = Some (''Error fetching data or calculating DCF for AEL.JO: ''
                           @ unsupported_mul)
        \<and> rs ! 4 = Some (''Error fetching data or calculating DCF for AFE.JO: ''
                           @ ''single positional indexer is out-of-bounds'')
        \<and> rs ! 5 = Some (''Error fetching data or calculating DCF for AFH.JO: ''
                           @ not_subscriptable)
        \<and> (\<exists>l. calculate_dcf_body source_assumptions ''ABG.JO'' example_data = Some l
              \<and> (''ABG.JO'', l) \<in> set (financial_data_records
                    (snd (run_script (provider_of example_environment)
                            [''ABG.JO'', ''XXX.JO'', ''ADH.JO'', ''AEL.JO'', ''AFE.JO'',
                             ''AFH.JO'']
                            [2, 0, 5, 1, 4, 3])))))"
proof -
  let ?ts = "[''ABG.JO'', ''XXX.JO'', ''ADH.JO'', ''AEL.JO'', ''AFE.JO'', ''AFH.JO'']"
  let ?sched = "[2, 0, 5, 1, 4, 3 :: nat]"
  let ?run = "executor_map (safe_calculate_dcf (provider_of example_environment)) ?ts ?sched
      initial_world"
  have all: "{..<length ?ts} \<subseteq> set ?sched"
    by (auto simp: less_Suc_eq)
  have fetch: "fetch example_environment ''XXX.JO'' = Inl ''No data found, symbol may be delisted''"
    by (simp add: example_fetch)
  have norm1: "\<exists>raw. fetch example_environment ''ADH.JO'' = Inr raw
      \<and> normalize_error raw = Some out_of_bounds"
    by (simp add: example_fetch example_errors)
  have norm2: "\<exists>raw. fetch example_environment ''AFH.JO'' = Inr raw
      \<and> normalize_error raw = Some not_subscriptable"
    by (simp add: example_fetch example_errors)
  have eval1: "\<exists>raw. fetch example_environment ''AEL.JO'' = Inr raw \<and> normalize_error raw = None
      \<and> evaluate_error raw = Some unsupported_mul"
    by (simp add: example_fetch example_errors)
  have eval2: "\<exists>raw. fetch example_environment ''AFE.JO'' = Inr raw \<and> normalize_error raw = None
      \<and> evaluate_error raw = Some out_of_bounds"
    by (simp add: example_fetch example_loss_errors)
  have i1: "(1 :: nat) < length ?ts" and i2: "(2 :: nat) < length ?ts"
    and i3: "(3 :: nat) < length ?ts" and i4: "(4 :: nat) < length ?ts"
    and i5: "(5 :: nat) < length ?ts"
    by simp_all
  have f1: "fetch example_environment (?ts ! 1) = Inl ''No data found, symbol may be delisted''
       \<or> (\<exists>raw. fetch example_environment (?ts ! 1) = Inr raw
              \<and> normalize_error raw = Some ''No data found, symbol may be delisted'')
       \<or> (\<exists>raw. fetch example_environment (?ts ! 1) = Inr raw \<and> normalize_error raw = None
              \<and> evaluate_error raw = Some ''No data found, symbol may be delisted'')"
    using fetch by simp
  have f2: "fetch example_environment (?ts ! 2) = Inl out_of_bounds
       \<or> (\<exists>raw. fetch example_environment (?ts ! 2) = Inr raw
              \<and> normalize_error raw = Some out_of_bounds)
       \<or> (\<exists>raw. fetch example_environment (?ts ! 2) = Inr raw \<and> normalize_error raw = None
              \<and> evaluate_error raw = Some out_of_bounds)"
    using norm1 by simp
  have f3: "fetch example_environment (?ts ! 3) = Inl unsupported_mul
       \<or> (\<exists>raw. fetch example_environment (?ts ! 3) = Inr raw
              \<and> normalize_error raw = Some unsupported_mul)
       \<or> (\<exists>raw. fetch example_environment (?ts ! 3) = Inr raw \<and> normalize_error raw = None
              \<and> evaluate_error raw = Some unsupported_mul)"
    using eval1 by simp
  have f4: "fetch example_environment (?ts ! 4) = Inl out_of_bounds
       \<or> (\<exists>raw. fetch example_environment (?ts ! 4) = Inr raw
              \<and> normalize_error raw = Some out_of_bounds)
       \<or> (\<exists>raw. fetch example_environment (?ts ! 4) = Inr raw \<and> normalize_error raw = None
              \<and> evaluate_error raw = Some out_of_bounds)"
    using eval2 by simp
  have f5: "fetch example_environment (?ts ! 5) = Inl not_subscriptable
       \<or> (\<exists>raw. fetch example_environment (?ts ! 5) = Inr raw
              \<and> normalize_error raw = Some not_subscriptable)
       \<or> (\<exists>raw. fetch example_environment (?ts ! 5) = Inr raw \<and> normalize_error raw = None
              \<and> evaluate_error raw = Some not_subscriptable)"
    using norm2 by simp
  from failure_is_isolated [where ts = ?ts and sched = ?sched and i = 1
      and env = example_environment and w = initial_world, OF all i1 f1]
  obtain rs where rs: "fst ?run = Some rs"
    and len: "length rs = length ?ts"
    and e1: "rs ! 1 = Some (''Error fetching data or calculating DCF for '' @ ?ts ! 1 @ '': ''
        @ ''No data found, symbol may be delisted'')"
    and ok: "\<forall>j<length ?ts. \<forall>raw.
          fetch example_environment (?ts ! j) = Inr raw \<and> normalize_error raw = None
            \<and> evaluate_error raw = None
            \<and> open_error example_environment (dcf_output_folder @ ''/'' @ ?ts ! j @ ''_dcf.txt'')
                = None \<longrightarrow>
          rs ! j = None
          \<and> (\<exists>l. calculate_dcf_body source_assumptions (?ts ! j) (numbers raw) = Some l
                \<and> (?ts ! j, l) \<in> set (financial_data_records (snd ?run)))"
    by (elim exE conjE)
  from failure_is_isolated [where ts = ?ts and sched = ?sched and i = 2
      and env = example_environment and w = initial_world, OF all i2 f2] rs
  have e2: "rs ! 2 = Some (''Error fetching data or calculating DCF for '' @ ?ts ! 2 @ '': ''
        @ out_of_bounds)"
    by (elim exE conjE) simp
  from failure_is_isolated [where ts = ?ts and sched = ?sched and i = 3
      and env = example_environment and w = initial_world, OF all i3 f3] rs
  have e3: "rs ! 3 = Some (''Error fetching data or calculating DCF for '' @ ?ts ! 3 @ '': ''
        @ unsupported_mul)"
    by (elim exE conjE) simp
  from failure_is_isolated [where ts = ?ts and sched = ?sched and i = 4
      and env = example_environment and w = initial_world, OF all i4 f4] rs
  have e4: "rs ! 4 = Some (''Error fetching data or calculating DCF for '' @ ?ts ! 4 @ '': ''
        @ out_of_bounds)"
    by (elim exE conjE) simp
  from failure_is_isolated [where ts = ?ts and sched = ?sched and i = 5
      and env = example_environment and w = initial_world, OF all i5 f5] rs
  have e5: "rs ! 5 = Some (''Error fetching data or calculating DCF for '' @ ?ts ! 5 @ '': ''
        @ not_subscriptable)"
    by (elim exE conjE) simp
  have "(0 :: nat) < length ?ts" by simp
  with ok have "fetch example_environment (?ts ! 0) = Inr (raw_numbers example_data)
        \<and> normalize_error (raw_numbers example_data) = None
        \<and> evaluate_error (raw_numbers example_data) = None
        \<and> open_error example_environment (dcf_output_folder @ ''/'' @ ?ts ! 0 @ ''_dcf.txt'')
            = None \<longrightarrow>
      rs ! 0 = None
      \<and> (\<exists>l. calculate_dcf_body source_assumptions (?ts ! 0) (numbers (raw_numbers example_data))
               = Some l
            \<and> (?ts ! 0, l) \<in> set (financial_data_records (snd ?run)))"
    by blast
  then have ok0: "rs ! 0 = None
      \<and> (\<exists>l. calculate_dcf_body source_assumptions ''ABG.JO'' example_data = Some l
            \<and> (''ABG.JO'', l) \<in> set (financial_data_records (snd ?run)))"
    by (simp add: example_fetch example_errors numbers_raw_numbers)
  from rs len ok0 e1 e2 e3 e4 e5
  have "\<exists>rs. fst ?run = Some rs
        \<and> length rs = 6
        \<and> rs ! 0 = None
        \<and> rs ! 1 = Some (''Error fetching data or calculating DCF for XXX.JO: ''
                           @ ''No data found, symbol may be delisted'')
        \<and> rs ! 2 = Some (''Error fetching data or calculating DCF for ADH.JO: ''
                           @ ''single positional indexer is out-of-bounds'')
        \<and> rs ! 3 = Some (''Error fetching data or calculating DCF for AEL.JO: ''
                           @ unsupported_mul)
        \<and> rs ! 4 = Some (''Error fetching data or calculating DCF for AFE.JO: ''
                           @ ''single positional indexer is out-of-bounds'')
        \<and> rs ! 5 = Some (''Error fetching data or calculating DCF for AFH.JO: ''
                           @ not_subscriptable)
        \<and> (\<exists>l. calculate_dcf_body source_assumptions ''ABG.JO'' example_data = Some l
              \<and> (''ABG.JO'', l) \<in> set (financial_data_records (snd ?run)))"
    by (intro exI [of _ rs]) (simp add: out_of_bounds_def)
  with all fetch norm1 norm2 eval1 eval2 show ?thesis
    unfolding run_script_def by (intro conjI)
qed

section \<open>Order of the collected rows\<close>

text \<open>
  Claim C8, as amended. The workers write the shared list \<^verbatim>\<open>financial_data_records\<close>
  themselves: a worker that succeeds appends its row and returns \<^verbatim>\<open>None\<close>, and the list
  holds, after the rows it held before, the rows of the calls in the order in which the
  calls completed. Only the returned values are assembled by the caller, in input order
  and once every position is processed.
\<close>

theorem rows_in_completion_order:
  "financial_data_records (snd (executor_map (safe_calculate_dcf yf) ts sched w))
     = financial_data_records w
         @ concat (map (\<lambda>i. financial_data_records
                               (snd (safe_calculate_dcf yf (ts ! i) initial_world)))
                     (filter (\<lambda>i. i < length ts) sched))
   \<and> (\<forall>t d. yf t = Inr d \<longrightarrow>
         fst (safe_calculate_dcf yf t w) = None
         \<and> (\<exists>l. calculate_dcf_body source_assumptions t d = Some l
               \<and> financial_data_records (snd (safe_calculate_dcf yf t w))
                   = financial_data_records w @ [(t, l)]))
   \<and> fst (executor_map (safe_calculate_dcf yf) ts sched w)
       = (if {..<length ts} \<subseteq> set sched
          then Some (map (\<lambda>t. fst (safe_calculate_dcf yf t w)) ts) else None)"
proof -
  have "fst (safe_calculate_dcf yf t w) = None
         \<and> (\<exists>l. calculate_dcf_body source_assumptions t d = Some l
               \<and> financial_data_records (snd (safe_calculate_dcf yf t w))
                   = financial_data_records w @ [(t, l)])"
    if d: "yf t = Inr d" for t d
  proof -
    obtain l where l: "calculate_dcf_body source_assumptions t d = Some l"
      using body_Some by blast
    then show ?thesis by (simp add: safe_calculate_dcf_success [of yf t d l, OF d l])
  qed
  with executor_map_records [of yf ts sched w] executor_map_results [of yf ts sched w]
  show ?thesis by blast
qed

theorem rows_in_completion_order_witness:
  "\<exists>l1 l2. calculate_dcf_body source_assumptions ''ABG.JO'' example_data = Some l1
     \<and> calculate_dcf_body source_assumptions ''ADH.JO'' no_data = Some l2
     \<and> example_provider ''ABG.JO'' = Inr example_data
     \<and> fst (safe_calculate_dcf example_provider ''ABG.JO'' initial_world) = None
     \<and> financial_data_records (snd (safe_calculate_dcf example_provider ''ABG.JO'' initial_world))
         = [(''ABG.JO'', l1)]
     \<and> financial_data_records (snd (run_script example_provider [''ABG.JO'', ''ADH.JO''] [1, 0]))
         = [(''ADH.JO'', l2), (''ABG.JO'', l1)]
     \<and> fst (run_script example_provider [''ABG.JO'', ''ADH.JO''] [1, 0]) = Some [None, None]"
proof -
  let ?ts = "[''ABG.JO'', ''ADH.JO'']"
  let ?F = "safe_calculate_dcf example_provider"
  obtain l2 where l2: "calculate_dcf_body source_assumptions ''ADH.JO'' no_data = Some l2"
    using body_Some by blast
  from rows_in_completion_order [of example_provider ?ts "[1, 0]" initial_world]
  have rows: "financial_data_records (snd (executor_map ?F ?ts [1, 0] initial_world))
     = financial_data_records initial_world
         @ concat (map (\<lambda>i. financial_data_records (snd (?F (?ts ! i) initial_world)))
                     (filter (\<lambda>i. i < length ?ts) [1, 0]))"
    and one: "\<forall>t d. example_provider t = Inr d \<longrightarrow>
         fst (?F t initial_world) = None
         \<and> (\<exists>l. calculate_dcf_body source_assumptions t d = Some l
               \<and> financial_data_records (snd (?F t initial_world))
                   = financial_data_records initial_world @ [(t, l)])"
    and res: "fst (executor_map ?F ?ts [1, 0] initial_world)
       = (if {..<length ?ts} \<subseteq> set [1, 0]
          then Some (map (\<lambda>t. fst (?F t initial_world)) ?ts) else None)"
    by blast+
  from one example_provider_simps(1)
  obtain l1 where l1: "calculate_dcf_body source_assumptions ''ABG.JO'' example_data = Some l1"
    and r1: "fst (?F ''ABG.JO'' initial_world) = None"
    and a1: "financial_data_records (snd (?F ''ABG.JO'' initial_world))
               = financial_data_records initial_world @ [(''ABG.JO'', l1)]"
    by blast
  note ex = example_rows [OF l1 l2]
  have all: "{..<length ?ts} \<subseteq> set [1, 0 :: nat]"
    by (auto simp: less_Suc_eq)
  from rows have "financial_data_records (snd (run_script example_provider ?ts [1, 0]))
         = [(''ADH.JO'', l2), (''ABG.JO'', l1)]"
    by (simp add: run_script_def ex initial_world_def)
  moreover from res all have "fst (run_script example_provider ?ts [1, 0]) = Some [None, None]"
    by (simp add: run_script_def ex)
  moreover from a1 have "financial_data_records (snd (?F ''ABG.JO'' initial_world))
         = [(''ABG.JO'', l1)]"
    by (simp add: initial_world_def)
  ultimately show ?thesis
    using l1 l2 r1 example_provider_simps(1) by blast
qed

text \<open>
  Claim C8 as stated fails: the same two tickers, processed under the two schedules of a
  pool with two workers, give the same list of returned values and two different orders
  of the collected rows.
\<close>

theorem rows_in_completion_order_counterexample:
  "fst (run_script example_provider [''ABG.JO'', ''ADH.JO''] [0, 1])
     = fst (run_script example_provider [''ABG.JO'', ''ADH.JO''] [1, 0])
   \<and> financial_data_records (snd (run_script example_provider [''ABG.JO'', ''ADH.JO''] [0, 1]))
       \<noteq> financial_data_records (snd (run_script example_provider [''ABG.JO'', ''ADH.JO''] [1, 0]))"
proof -
  let ?ts = "[''ABG.JO'', ''ADH.JO'']"
  obtain l1 where l1: "calculate_dcf_body source_assumptions ''ABG.JO'' example_data = Some l1"
    using body_Some by blast
  obtain l2 where l2: "calculate_dcf_body source_assumptions ''ADH.JO'' no_data = Some l2"
    using body_Some by blast
  note ex = example_rows [OF l1 l2]
  have "{..<length ?ts} \<subseteq> set [0, 1 :: nat]" "{..<length ?ts} \<subseteq> set [1, 0 :: nat]"
    by (auto simp: less_Suc_eq)
  then have same: "fst (run_script example_provider ?ts [0, 1])
      = fst (run_script example_provider ?ts [1, 0])"
    by (simp add: run_script_def executor_map_results)
  have "financial_data_records (snd (run_script example_provider ?ts [0, 1]))
      = [(''ABG.JO'', l1), (''ADH.JO'', l2)]"
    by (simp add: run_script_def executor_map_records ex initial_world_def)
  moreover have "financial_data_records (snd (run_script example_provider ?ts [1, 0]))
      = [(''ADH.JO'', l2), (''ABG.JO'', l1)]"
    by (simp add: run_script_def executor_map_records ex initial_world_def)
  ultimately show ?thesis using same by simp
qed

end
